theory Spec2Isabelle
  imports Main
begin

section \<open>The platform: store, clock, authentication, downstream failures\<close>

text \<open>
  The backend operations are Deno request handlers that talk to a relational store, an
  object store and an authentication service through the supabase client. A store call
  of that client never throws: it returns \<open>{data, error}\<close>. The model passes the store
  explicitly and returns it updated; every table is the list of its rows. Whether a
  call is served or fails downstream is decided by the environment (\<open>fault\<close>), which
  gives the error message of a failing call; a failing call changes nothing.
  Amounts are whole numbers. The handlers run with the time zone UTC.
\<close>

record datetime =
  dt_year :: int
  dt_month :: int
  dt_day :: int
  dt_ms :: int

record profile =
  profile_id :: string
  first_name :: "string option"
  last_name :: "string option"
  role :: string
  outstanding_amount :: int

record loan_request =
  loan_id :: string
  loan_user_id :: string
  loan_user_email :: "string option"
  loan_amount :: int
  loan_reason :: "string option"
  guarantor_id :: "string option"
  guarantor_name :: "string option"
  loan_status :: string
  loan_created_at :: datetime
  due_date :: "datetime option"
  processed_by :: "string option"
  processed_at :: "datetime option"
  rejection_reason :: "string option"

record loan_tier =
  tier_amount :: int
  fine :: int
  repayment_info :: "string option"

record transaction =
  tx_user_id :: "string option"
  tx_type :: string
  tx_amount :: int
  tx_description :: string
  tx_user_full_name :: string
  tx_created_at :: datetime

record payment_proof =
  proof_id :: string
  proof_user_id :: string
  proof_user_full_name :: string
  contribution_month :: datetime
  file_path :: string
  proof_status :: string
  proof_notes :: "string option"
  proof_processed_by :: "string option"
  proof_processed_at :: "datetime option"

record notification =
  note_user_id :: string
  title :: string
  message :: string
  link :: string

record store =
  profiles :: "profile list"
  loan_requests :: "loan_request list"
  loan_tiers :: "loan_tier list"
  transactions :: "transaction list"
  payment_proofs :: "payment_proof list"
  notifications :: "notification list"
  main_balance :: int
  storage_objects :: "(string \<times> string) list"

text \<open>The store calls of the handlers, one constructor for each call site.\<close>

datatype call =
  SelectProfileRole
  | SelectLoanRequest
  | SelectLoanTier
  | RpcIncrementUserOutstandingAmount
  | SelectProfileName
  | InsertPersonalTransaction
  | InsertPublicTransaction
  | UpdateLoanRequest
  | InsertNotification
  | SelectPaymentProof
  | RpcAdminCreateTransaction datetime
  | UpdatePaymentProof
  | StorageRemove
  | StorageUpload
  | InsertPaymentProof
  | InsertLoanRequest
  | SelectProfilesIn
  | RpcIncrementOutstandingAmounts

record env =
  getUser :: "string \<Rightarrow> string option"
  fault :: "call \<Rightarrow> string option"
  now :: datetime
  toLocaleString_en_IN :: "int \<Rightarrow> string"
  month_year_long :: "datetime \<Rightarrow> string"
  getUserById_email :: "string \<Rightarrow> string option"
  generated_id :: string
  date_now :: int
  adjust_profiles :: "string \<Rightarrow> string \<Rightarrow> int \<Rightarrow> profile list \<Rightarrow> profile list"
  adjust_main :: "string \<Rightarrow> int \<Rightarrow> int \<Rightarrow> int"

datatype payload =
  NoBody
  | ErrorJson string
  | ErrorDetailsJson string
  | MessageJson string
  | LoanCreatedJson string loan_request
  | CsvText string

datatype response = Response nat payload

record 'b request =
  http_method :: string
  authorization :: "string option"
  body :: "'b option"

subsection \<open>JavaScript helpers\<close>

definition is_space :: "char \<Rightarrow> bool" where
  "is_space c = (c \<in> set [CHR '' '', CHR 0x09, CHR 0x0A, CHR 0x0B, CHR 0x0C, CHR 0x0D])"

definition trim :: "string \<Rightarrow> string" where
  "trim s = rev (dropWhile is_space (rev (dropWhile is_space s)))"

text \<open>\<open>x || ''\<close> on a nullable string.\<close>

definition or_empty :: "string option \<Rightarrow> string" where
  "or_empty v = (case v of None \<Rightarrow> [] | Some s \<Rightarrow> s)"

text \<open>\<open>!x\<close> on an optional string of the request body: absent, null and the empty string are falsy.\<close>

definition falsy :: "string option \<Rightarrow> bool" where
  "falsy v = (case v of None \<Rightarrow> True | Some s \<Rightarrow> s = [])"

text \<open>\<open>s.replace(pat, '')\<close> with a string pattern: the first occurrence only.\<close>

fun remove_first :: "string \<Rightarrow> string \<Rightarrow> string" where
  "remove_first pat [] = []"
| "remove_first pat (c # cs) =
     (if take (length pat) (c # cs) = pat then drop (length pat) (c # cs)
      else c # remove_first pat cs)"

fun nat_to_string :: "nat \<Rightarrow> string" where
  "nat_to_string n =
     (if n < 10 then [''0123456789'' ! n]
      else nat_to_string (n div 10) @ [''0123456789'' ! (n mod 10)])"

declare nat_to_string.simps [simp del]

definition int_to_string :: "int \<Rightarrow> string" where
  "int_to_string i =
     (if i < 0 then CHR ''-'' # nat_to_string (nat (- i)) else nat_to_string (nat i))"

text \<open>The template \<open>`${first_name || ''} ${last_name || ''}`.trim()\<close>.\<close>

definition full_name :: "string option \<Rightarrow> string option \<Rightarrow> string" where
  "full_name f l = trim (or_empty f @ '' '' @ or_empty l)"

subsection \<open>Store calls\<close>

text \<open>The message of the client when \<open>.single()\<close> does not find exactly one row.\<close>

definition not_single :: string where
  "not_single = ''JSON object requested, multiple (or no) rows returned''"

definition select_single :: "env \<Rightarrow> call \<Rightarrow> 'a list \<Rightarrow> string + 'a" where
  "select_single e c rows =
     (case fault e c of
        Some msg \<Rightarrow> Inl msg
      | None \<Rightarrow> (case rows of [r] \<Rightarrow> Inr r | _ \<Rightarrow> Inl not_single))"

text \<open>A write whose result the handler does not look at.\<close>

definition fire_and_forget :: "env \<Rightarrow> call \<Rightarrow> (store \<Rightarrow> store) \<Rightarrow> store \<Rightarrow> store" where
  "fire_and_forget e c w db = (case fault e c of Some msg \<Rightarrow> db | None \<Rightarrow> w db)"

definition thrown :: "string \<Rightarrow> response" where
  "thrown msg = Response 500 (ErrorJson msg)"

definition forbidden :: response where
  "forbidden = Response 403 (ErrorJson ''You must be an admin to perform this action.'')"

definition insert_transaction :: "transaction \<Rightarrow> store \<Rightarrow> store" where
  "insert_transaction t db = db\<lparr>transactions := transactions db @ [t]\<rparr>"

definition insert_notification :: "notification \<Rightarrow> store \<Rightarrow> store" where
  "insert_notification n db = db\<lparr>notifications := notifications db @ [n]\<rparr>"

text \<open>
  Modelled from the spec: the SQL routine \<open>increment_user_outstanding_amount\<close> is not
  among the sources. The spec: disbursement ``increments the member's outstanding_amount
  by amount + tier.fine''; the handler passes the member and that sum.
\<close>

definition increment_user_outstanding_amount :: "string \<Rightarrow> int \<Rightarrow> store \<Rightarrow> store" where
  "increment_user_outstanding_amount user_uuid amount_to_add db =
     db\<lparr>profiles :=
       map (\<lambda>p. if profile_id p = user_uuid
                then p\<lparr>outstanding_amount := outstanding_amount p + amount_to_add\<rparr> else p)
         (profiles db)\<rparr>"

subsection \<open>The inline admin check\<close>

text \<open>
  Step 1 of every admin handler: the caller is read from the bearer token, then the
  stored role of the caller's profile must be \<open>admin\<close>. \<open>Inl\<close> is the response the
  handler ends with, \<open>Inr\<close> the id of the admin.
\<close>

definition admin_check :: "env \<Rightarrow> 'b request \<Rightarrow> store \<Rightarrow> response + string" where
  "admin_check e req db =
     (case authorization req of
        None \<Rightarrow> Inl (thrown ''Authorization header missing'')
      | Some h \<Rightarrow>
          if h = [] then Inl (thrown ''Authorization header missing'')
          else (case getUser e (remove_first ''Bearer '' h) of
              None \<Rightarrow> Inl (thrown ''Admin user not authenticated'')
            | Some u \<Rightarrow>
                (case select_single e SelectProfileRole
                        (filter (\<lambda>p. profile_id p = u) (profiles db)) of
                   Inl msg \<Rightarrow> Inl forbidden
                 | Inr p \<Rightarrow> if role p \<noteq> ''admin'' then Inl forbidden else Inr u)))"

section \<open>admin-disburse-loan\<close>

record disburse_body =
  d_loanId :: "string option"

text \<open>The message of a request body that is not JSON.\<close>

definition bad_json :: string where
  "bad_json = ''Unexpected end of JSON input''"

definition set_loan_status :: "string \<Rightarrow> string \<Rightarrow> store \<Rightarrow> store" where
  "set_loan_status lid st db =
     db\<lparr>loan_requests :=
       map (\<lambda>l. if loan_id l = lid then l\<lparr>loan_status := st\<rparr> else l) (loan_requests db)\<rparr>"

definition disburse_personal :: "env \<Rightarrow> loan_request \<Rightarrow> int \<Rightarrow> string \<Rightarrow> transaction" where
  "disburse_personal e loan totalAmountToAdd name =
     \<lparr>tx_user_id = Some (loan_user_id loan), tx_type = ''withdrawal'',
      tx_amount = loan_amount loan,
      tx_description = ''Loan of $'' @ toLocaleString_en_IN e (loan_amount loan)
        @ '' disbursed. Total outstanding: $'' @ toLocaleString_en_IN e totalAmountToAdd @ ''.'',
      tx_user_full_name = name, tx_created_at = now e\<rparr>"

definition disburse_public :: "env \<Rightarrow> loan_request \<Rightarrow> string \<Rightarrow> transaction" where
  "disburse_public e loan name =
     \<lparr>tx_user_id = None, tx_type = ''withdrawal'', tx_amount = loan_amount loan,
      tx_description = ''Loan'', tx_user_full_name = name, tx_created_at = now e\<rparr>"

definition disburse_name :: "env \<Rightarrow> loan_request \<Rightarrow> store \<Rightarrow> string" where
  "disburse_name e loan db =
     (let n = (case select_single e SelectProfileName
                      (filter (\<lambda>p. profile_id p = loan_user_id loan) (profiles db)) of
                 Inl msg \<Rightarrow> full_name None None
               | Inr p \<Rightarrow> full_name (first_name p) (last_name p))
      in if n = [] then ''N/A'' else n)"

definition disburse_writes :: "env \<Rightarrow> loan_request \<Rightarrow> loan_tier \<Rightarrow> store \<Rightarrow> store" where
  "disburse_writes e loan tier db =
     (let totalAmountToAdd = loan_amount loan + fine tier;
          db1 = fire_and_forget e RpcIncrementUserOutstandingAmount
                  (increment_user_outstanding_amount (loan_user_id loan) totalAmountToAdd) db;
          name = disburse_name e loan db1;
          db2 = fire_and_forget e InsertPersonalTransaction
                  (insert_transaction (disburse_personal e loan totalAmountToAdd name)) db1
      in fire_and_forget e InsertPublicTransaction
           (insert_transaction (disburse_public e loan name)) db2)"

definition disburse_notification :: "env \<Rightarrow> loan_request \<Rightarrow> notification" where
  "disburse_notification e loan =
     \<lparr>note_user_id = loan_user_id loan, title = ''Loan Disbursed'',
      message = ''Your loan of $'' @ toLocaleString_en_IN e (loan_amount loan)
        @ '' has been disbursed.'',
      link = ''/loan-request''\<rparr>"

definition admin_disburse_loan ::
  "env \<Rightarrow> disburse_body request \<Rightarrow> store \<Rightarrow> response \<times> store" where
  "admin_disburse_loan e req db =
     (if http_method req = ''OPTIONS'' then (Response 200 NoBody, db)
      else case admin_check e req db of
        Inl r \<Rightarrow> (r, db)
      | Inr admin \<Rightarrow>
        (case body req of
           None \<Rightarrow> (thrown bad_json, db)
         | Some b \<Rightarrow>
           if falsy (d_loanId b) then (Response 400 (ErrorJson ''Missing loanId.''), db)
           else (case select_single e SelectLoanRequest
                  (filter (\<lambda>l. loan_id l = or_empty (d_loanId b)) (loan_requests db)) of
             Inl msg \<Rightarrow> (thrown (''Loan request not found. Error: '' @ msg), db)
           | Inr loan \<Rightarrow>
             if loan_status loan \<noteq> ''approved''
             then (thrown ''This loan is not in an approved state ready for disbursement.'', db)
             else (case select_single e SelectLoanTier
                    (filter (\<lambda>t. tier_amount t = loan_amount loan) (loan_tiers db)) of
               Inl msg \<Rightarrow>
                 (thrown (''Could not find loan tier for amount ''
                    @ int_to_string (loan_amount loan) @ ''. Error: '' @ msg), db)
             | Inr tier \<Rightarrow>
               (let db3 = disburse_writes e loan tier db in
                case fault e UpdateLoanRequest of
                  Some msg \<Rightarrow> (thrown msg, db3)
                | None \<Rightarrow>
                  (Response 200 (MessageJson ''Loan successfully disbursed.''),
                   fire_and_forget e InsertNotification
                     (insert_notification (disburse_notification e loan))
                     (set_loan_status (or_empty (d_loanId b)) ''in-process'' db3)))))))"

section \<open>Dates\<close>

text \<open>
  A JavaScript \<open>Date\<close> is modelled by its calendar fields in the time zone of the
  handler (UTC): the year, the month counted from 0 as \<open>getMonth\<close> does, the day of the
  month and the milliseconds since midnight. A time value lies between
  -271821-04-20 and +275760-09-13 (UTC midnight); outside, the \<open>Date\<close> is invalid,
  which is \<open>None\<close> here.
\<close>

definition leap_year :: "int \<Rightarrow> bool" where
  "leap_year y = (y mod 4 = 0 \<and> (y mod 100 \<noteq> 0 \<or> y mod 400 = 0))"

definition days_in_month :: "int \<Rightarrow> int \<Rightarrow> int" where
  "days_in_month y m =
     (if m = 1 then (if leap_year y then 29 else 28)
      else if m = 3 \<or> m = 5 \<or> m = 8 \<or> m = 10 then 30 else 31)"

definition date_le :: "datetime \<Rightarrow> datetime \<Rightarrow> bool" where
  "date_le a b =
     (dt_year a < dt_year b \<or> (dt_year a = dt_year b \<and>
       (dt_month a < dt_month b \<or> (dt_month a = dt_month b \<and>
         (dt_day a < dt_day b \<or> (dt_day a = dt_day b \<and> dt_ms a \<le> dt_ms b))))))"

definition min_date :: datetime where
  "min_date = \<lparr>dt_year = - 271821, dt_month = 3, dt_day = 20, dt_ms = 0\<rparr>"

definition max_date :: datetime where
  "max_date = \<lparr>dt_year = 275760, dt_month = 8, dt_day = 13, dt_ms = 0\<rparr>"

definition in_time_range :: "datetime \<Rightarrow> bool" where
  "in_time_range d = (date_le min_date d \<and> date_le d max_date)"

text \<open>
  \<open>addMonths\<close> of date-fns 2.30.0 for an amount that is not negative: no change for 0;
  otherwise the last day of the desired month is computed first
  (\<open>endOfDesiredMonth.setMonth(date.getMonth() + amount + 1, 0)\<close>); the result is that day
  when the day of the month of the date is not before it, and the same day of the month
  in the desired month otherwise. When the last day of the desired month is outside the
  time range, the result is an invalid \<open>Date\<close>.
\<close>

definition addMonths :: "datetime \<Rightarrow> nat \<Rightarrow> datetime option" where
  "addMonths d amount =
     (if amount = 0 then Some d
      else
        (let i = 12 * dt_year d + dt_month d + int amount;
             daysInMonth = days_in_month (i div 12) (i mod 12);
             endOfDesiredMonth = \<lparr>dt_year = i div 12, dt_month = i mod 12,
                                  dt_day = daysInMonth, dt_ms = dt_ms d\<rparr>
         in if \<not> in_time_range endOfDesiredMonth then None
            else if dt_day d \<ge> daysInMonth then Some endOfDesiredMonth
            else Some \<lparr>dt_year = i div 12, dt_month = i mod 12,
                        dt_day = dt_day d, dt_ms = dt_ms d\<rparr>))"

section \<open>process-loan-request\<close>

text \<open>
  The pattern \<open>/(\d+)\s+Months/\<close>: the leftmost position where a run of digits, then a
  run of white space and then \<open>Months\<close> stand; the group is the whole run of digits
  from that position (a shorter run would be followed by a digit, fewer spaces by a
  space). Texts are taken as ASCII, so \<open>\s\<close> is one of its six ASCII characters.
\<close>

definition is_digit :: "char \<Rightarrow> bool" where
  "is_digit c = (c \<in> set ''0123456789'')"

definition months_at :: "string \<Rightarrow> string option" where
  "months_at s =
     (let ds = takeWhile is_digit s;
          r = dropWhile is_digit s
      in if ds \<noteq> [] \<and> takeWhile is_space r \<noteq> []
            \<and> take 6 (dropWhile is_space r) = ''Months''
         then Some ds else None)"

fun match_months :: "string \<Rightarrow> string option" where
  "match_months [] = None"
| "match_months (c # cs) =
     (case months_at (c # cs) of Some ds \<Rightarrow> Some ds | None \<Rightarrow> match_months cs)"

text \<open>\<open>parseInt(ds, 10)\<close> on a run of digits.\<close>

definition parseInt :: "string \<Rightarrow> nat" where
  "parseInt ds = foldl (\<lambda>n c. 10 * n + (of_char c - 48)) 0 ds"

record process_loan_body =
  p_loanId :: "string option"
  p_status :: "string option"
  p_rejection_reason :: "string option"

text \<open>
  Step 5, the due date of an approved loan. \<open>Inl\<close> is the message of what is thrown:
  \<open>match\<close> on a null text, or \<open>toISOString\<close> on an invalid \<open>Date\<close>. \<open>Inr None\<close>: the
  payload gets no \<open>due_date\<close>.
\<close>

definition approval_due_date :: "env \<Rightarrow> loan_tier \<Rightarrow> string + datetime option" where
  "approval_due_date e tier =
     (case repayment_info tier of
        None \<Rightarrow> Inl ''Cannot read properties of null (reading 'match')''
      | Some repaymentString \<Rightarrow>
          (case match_months repaymentString of
             None \<Rightarrow> Inr None
           | Some ds \<Rightarrow>
               (case addMonths (now e) (parseInt ds) of
                  None \<Rightarrow> Inl ''Invalid time value''
                | Some d \<Rightarrow> Inr (Some d))))"

definition update_loan_request ::
  "string \<Rightarrow> string \<Rightarrow> string \<Rightarrow> datetime \<Rightarrow> string option \<Rightarrow> datetime option
     \<Rightarrow> store \<Rightarrow> store" where
  "update_loan_request lid st admin at reason due db =
     db\<lparr>loan_requests :=
       map (\<lambda>l. if loan_id l = lid
                then l\<lparr>loan_status := st, processed_by := Some admin, processed_at := Some at,
                       rejection_reason :=
                         (if st = ''rejected'' then reason else rejection_reason l),
                       due_date := (case due of None \<Rightarrow> due_date l | Some d \<Rightarrow> Some d)\<rparr>
                else l)
         (loan_requests db)\<rparr>"

definition process_loan_request ::
  "env \<Rightarrow> process_loan_body request \<Rightarrow> store \<Rightarrow> response \<times> store" where
  "process_loan_request e req db =
     (if http_method req = ''OPTIONS'' then (Response 200 NoBody, db)
      else case admin_check e req db of
        Inl r \<Rightarrow> (r, db)
      | Inr admin \<Rightarrow>
        (case body req of
           None \<Rightarrow> (thrown bad_json, db)
         | Some b \<Rightarrow>
           if falsy (p_loanId b) \<or> falsy (p_status b)
              \<or> or_empty (p_status b) \<notin> set [''approved'', ''rejected'']
           then (Response 400 (ErrorJson ''Missing or invalid required fields.''), db)
           else if or_empty (p_status b) = ''rejected'' \<and> falsy (p_rejection_reason b)
           then (Response 400 (ErrorJson ''Rejection reason is required.''), db)
           else (case select_single e SelectLoanRequest
                  (filter (\<lambda>l. loan_id l = or_empty (p_loanId b)) (loan_requests db)) of
             Inl msg \<Rightarrow> (thrown (''Loan request not found. Error: '' @ msg), db)
           | Inr loan \<Rightarrow>
             if loan_status loan \<noteq> ''pending''
             then (thrown ''This loan request has already been processed.'', db)
             else (case (if or_empty (p_status b) = ''approved''
                        then (case select_single e SelectLoanTier
                                (filter (\<lambda>t. tier_amount t = loan_amount loan) (loan_tiers db)) of
                                Inl msg \<Rightarrow>
                                  Inl (''Could not find loan tier for amount ''
                                    @ int_to_string (loan_amount loan) @ ''. Error: '' @ msg)
                              | Inr tier \<Rightarrow> approval_due_date e tier)
                        else Inr None) of
               Inl msg \<Rightarrow> (thrown msg, db)
             | Inr due \<Rightarrow>
               (case fault e UpdateLoanRequest of
                  Some msg \<Rightarrow> (thrown msg, db)
                | None \<Rightarrow>
                  (Response 200
                     (MessageJson (''Loan request successfully '' @ or_empty (p_status b) @ ''.'')),
                   update_loan_request (or_empty (p_loanId b)) (or_empty (p_status b)) admin
                     (now e) (p_rejection_reason b) due db))))))"

section \<open>process-payment-proof\<close>

text \<open>
  Modelled from the spec: the SQL routine \<open>admin_create_transaction\<close> is not among the
  sources. The spec: it ``directly inserts one Transaction (deposit or withdrawal) for
  any member at any amount, adjusting outstanding_amount/main balance accordingly''.
  The inserted row has the fields the caller passes. The spec leaves the arithmetic of
  the adjustment open; it is taken from the environment and touches the balances only.
\<close>

definition admin_create_transaction ::
  "env \<Rightarrow> string \<Rightarrow> string \<Rightarrow> int \<Rightarrow> string \<Rightarrow> string \<Rightarrow> datetime \<Rightarrow> store \<Rightarrow> store" where
  "admin_create_transaction e p_user_id p_type p_amount p_description p_user_full_name
       p_transaction_date db =
     db\<lparr>transactions := transactions db @
          [\<lparr>tx_user_id = Some p_user_id, tx_type = p_type, tx_amount = p_amount,
            tx_description = p_description, tx_user_full_name = p_user_full_name,
            tx_created_at = p_transaction_date\<rparr>],
        profiles := adjust_profiles e p_user_id p_type p_amount (profiles db),
        main_balance := adjust_main e p_type p_amount (main_balance db)\<rparr>"

definition storage_remove :: "string \<Rightarrow> store \<Rightarrow> store" where
  "storage_remove path db =
     db\<lparr>storage_objects := filter (\<lambda>obj. fst obj \<noteq> path) (storage_objects db)\<rparr>"

record process_proof_body =
  pp_proofId :: "string option"
  pp_status :: "string option"
  pp_notes :: "string option"

text \<open>Step 5: \<open>notes\<close> is left out of the update when the body does not have it.\<close>

definition update_payment_proof ::
  "string \<Rightarrow> string \<Rightarrow> string option \<Rightarrow> string \<Rightarrow> datetime \<Rightarrow> store \<Rightarrow> store" where
  "update_payment_proof pid st nts admin at db =
     db\<lparr>payment_proofs :=
       map (\<lambda>p. if proof_id p = pid
                then p\<lparr>proof_status := st,
                       proof_notes := (case nts of None \<Rightarrow> proof_notes p | Some n \<Rightarrow> Some n),
                       proof_processed_by := Some admin, proof_processed_at := Some at\<rparr>
                else p)
         (payment_proofs db)\<rparr>"

definition proof_notification :: "env \<Rightarrow> payment_proof \<Rightarrow> string \<Rightarrow> string option \<Rightarrow> notification" where
  "proof_notification e proof st nts =
     (if st = ''approved''
      then \<lparr>note_user_id = proof_user_id proof, title = ''Contribution Approved'',
            message = ''Your contribution for '' @ month_year_long e (contribution_month proof)
              @ '' has been approved.'',
            link = ''/contribute''\<rparr>
      else \<lparr>note_user_id = proof_user_id proof, title = ''Contribution Rejected'',
            message = ''Your contribution for '' @ month_year_long e (contribution_month proof)
              @ '' was rejected. Reason: '' @ or_empty nts,
            link = ''/contribute''\<rparr>)"

definition process_payment_proof ::
  "env \<Rightarrow> process_proof_body request \<Rightarrow> store \<Rightarrow> response \<times> store" where
  "process_payment_proof e req db =
     (if http_method req = ''OPTIONS'' then (Response 200 NoBody, db)
      else case admin_check e req db of
        Inl r \<Rightarrow> (r, db)
      | Inr admin \<Rightarrow>
        (case body req of
           None \<Rightarrow> (thrown bad_json, db)
         | Some b \<Rightarrow>
           if falsy (pp_proofId b) \<or> falsy (pp_status b)
              \<or> or_empty (pp_status b) \<notin> set [''approved'', ''rejected'']
           then (Response 400 (ErrorJson ''Missing or invalid required fields.''), db)
           else if or_empty (pp_status b) = ''rejected'' \<and> falsy (pp_notes b)
           then (Response 400 (ErrorJson ''Rejection notes are required.''), db)
           else (case select_single e SelectPaymentProof
                  (filter (\<lambda>p. proof_id p = or_empty (pp_proofId b)) (payment_proofs db)) of
             Inl msg \<Rightarrow> (thrown (''Payment proof not found. Error: '' @ msg), db)
           | Inr proof \<Rightarrow>
             if proof_status proof \<noteq> ''pending''
             then (thrown ''This proof has already been processed.'', db)
             else (case (if or_empty (pp_status b) = ''approved''
                        then (case fault e (RpcAdminCreateTransaction (contribution_month proof)) of
                                Some msg \<Rightarrow> Inl msg
                              | None \<Rightarrow>
                                  Inr (admin_create_transaction e (proof_user_id proof) ''deposit'' 500
                                    (''Monthly contribution for ''
                                       @ month_year_long e (contribution_month proof))
                                    (proof_user_full_name proof) (contribution_month proof) db))
                        else Inr db) of
               Inl msg \<Rightarrow> (thrown msg, db)
             | Inr db1 \<Rightarrow>
               (case fault e UpdatePaymentProof of
                  Some msg \<Rightarrow> (thrown msg, db1)
                | None \<Rightarrow>
                  (Response 200
                     (MessageJson (''Proof successfully '' @ or_empty (pp_status b) @ ''.'')),
                   fire_and_forget e StorageRemove (storage_remove (file_path proof))
                     (fire_and_forget e InsertNotification
                        (insert_notification
                           (proof_notification e proof (or_empty (pp_status b)) (pp_notes b)))
                        (update_payment_proof (or_empty (pp_proofId b)) (or_empty (pp_status b))
                           (pp_notes b) admin (now e) db1))))))))"

section \<open>admin-bulk-add-contributions\<close>

text \<open>
  \<open>new Date(year, month, 1)\<close>: a year from 0 to 99 stands for 1900 + year, months
  outside 0..11 carry into the year, and a time outside the range gives an invalid
  \<open>Date\<close>.
\<close>

definition js_date :: "int \<Rightarrow> int \<Rightarrow> datetime option" where
  "js_date y m =
     (let yr = (if 0 \<le> y \<and> y \<le> 99 then 1900 + y else y);
          i = 12 * yr + m;
          d = \<lparr>dt_year = i div 12, dt_month = i mod 12, dt_day = 1, dt_ms = 0\<rparr>
      in if in_time_range d then Some d else None)"

definition month_names :: "string list" where
  "month_names = [''January'', ''February'', ''March'', ''April'', ''May'', ''June'', ''July'',
     ''August'', ''September'', ''October'', ''November'', ''December'']"

text \<open>\<open>format(date, 'MMMM yyyy')\<close> of date-fns: the year of the era, at least four digits.\<close>

definition format_MMMM_yyyy :: "datetime \<Rightarrow> string" where
  "format_MMMM_yyyy d =
     (let y = nat_to_string (nat (if dt_year d > 0 then dt_year d else 1 - dt_year d))
      in month_names ! nat (dt_month d mod 12) @ '' '' @ replicate (4 - length y) CHR ''0'' @ y)"

record bulk_body =
  b_userId :: "string option"
  b_startYear :: "int option"
  b_startMonth :: "int option"
  b_endYear :: "int option"
  b_endMonth :: "int option"

definition month_index :: "datetime \<Rightarrow> int" where
  "month_index d = 12 * dt_year d + dt_month d"

text \<open>Midnight of the first day of a month, the month given by its index 12 * year + month.\<close>

definition month_start :: "int \<Rightarrow> datetime" where
  "month_start i = \<lparr>dt_year = i div 12, dt_month = i mod 12, dt_day = 1, dt_ms = 0\<rparr>"

definition contribution_call ::
  "env \<Rightarrow> string \<Rightarrow> string \<Rightarrow> datetime \<Rightarrow> store \<Rightarrow> store" where
  "contribution_call e userId userFullName currentDate db =
     admin_create_transaction e userId ''deposit'' 500
       (''Monthly contribution for '' @ format_MMMM_yyyy currentDate) userFullName currentDate db"

text \<open>
  Step 4, the loop \<open>while (currentDate <= endDate)\<close>; a comparison with an invalid
  \<open>Date\<close> is false. \<open>Inl\<close> is the message of the error thrown, \<open>Inr\<close> the final
  \<open>contributionsAdded\<close>.
\<close>

function bulk_loop ::
  "env \<Rightarrow> string \<Rightarrow> string \<Rightarrow> datetime option \<Rightarrow> datetime option \<Rightarrow> nat \<Rightarrow> store
     \<Rightarrow> (string + nat) \<times> store" where
  "bulk_loop e userId userFullName currentDate endDate contributionsAdded db =
     (case (currentDate, endDate) of
        (Some c, Some en) \<Rightarrow>
          if date_le c en
          then (case fault e (RpcAdminCreateTransaction c) of
                  Some msg \<Rightarrow>
                    (Inl (''Failed to create transaction for '' @ format_MMMM_yyyy c
                          @ '': '' @ msg), db)
                | None \<Rightarrow>
                    bulk_loop e userId userFullName (addMonths c 1) endDate
                      (contributionsAdded + 1) (contribution_call e userId userFullName c db))
          else (Inr contributionsAdded, db)
      | _ \<Rightarrow> (Inr contributionsAdded, db))"
  by pat_completeness auto

termination
  apply (relation "measures
    [\<lambda>(e, u, nm, c, en, n, db). case c of None \<Rightarrow> 0
        | Some d \<Rightarrow> if 0 \<le> dt_month d \<and> dt_month d < 12 then 0 else (1::nat),
     \<lambda>(e, u, nm, c, en, n, db). case c of None \<Rightarrow> 0
        | Some d \<Rightarrow> (case en of None \<Rightarrow> 0
            | Some x \<Rightarrow> nat (12 * (dt_year x + 1) - month_index d))]")
   apply simp
  apply (auto simp: addMonths_def date_le_def Let_def month_index_def
      split: option.splits if_splits)
  done

declare bulk_loop.simps [simp del]

definition admin_bulk_add_contributions ::
  "env \<Rightarrow> bulk_body request \<Rightarrow> store \<Rightarrow> response \<times> store" where
  "admin_bulk_add_contributions e req db =
     (if http_method req = ''OPTIONS'' then (Response 200 NoBody, db)
      else case admin_check e req db of
        Inl r \<Rightarrow> (r, db)
      | Inr admin \<Rightarrow>
        (case body req of
           None \<Rightarrow> (thrown bad_json, db)
         | Some b \<Rightarrow>
           (case (b_userId b, b_startYear b, b_startMonth b, b_endYear b, b_endMonth b) of
              (Some userId, Some startYear, Some startMonth, Some endYear, Some endMonth) \<Rightarrow>
                (case select_single e SelectProfileName
                        (filter (\<lambda>p. profile_id p = userId) (profiles db)) of
                   Inl msg \<Rightarrow> (thrown (''Could not fetch user profile: '' @ msg), db)
                 | Inr userProfile \<Rightarrow>
                     (case bulk_loop e userId
                             (full_name (first_name userProfile) (last_name userProfile))
                             (js_date startYear startMonth) (js_date endYear endMonth) 0 db of
                        (Inl msg, db1) \<Rightarrow> (thrown msg, db1)
                      | (Inr contributionsAdded, db1) \<Rightarrow>
                          (Response 200 (MessageJson (''Successfully added ''
                             @ nat_to_string contributionsAdded @ '' contributions.'')), db1)))
            | _ \<Rightarrow> (Response 400 (ErrorJson ''Missing required fields.''), db))))"

section \<open>admin-create-loan\<close>

record create_loan_body =
  c_userId :: "string option"
  c_amount :: "int option"
  c_reason :: "string option"
  c_guarantorId :: "string option"
  c_status :: "string option"
  c_issueDate :: "datetime option"
  c_dueDate :: "datetime option"

definition profile_name :: "profile option \<Rightarrow> string" where
  "profile_name p =
     (case p of None \<Rightarrow> full_name None None
      | Some q \<Rightarrow> full_name (first_name q) (last_name q))"

definition new_loan ::
  "env \<Rightarrow> string \<Rightarrow> create_loan_body \<Rightarrow> string \<Rightarrow> int \<Rightarrow> string \<Rightarrow> datetime \<Rightarrow> string
     \<Rightarrow> loan_request" where
  "new_loan e admin b userId amount status issueDate guarantorName =
     \<lparr>loan_id = generated_id e, loan_user_id = userId,
      loan_user_email = getUserById_email e userId, loan_amount = amount,
      loan_reason = c_reason b, guarantor_id = c_guarantorId b,
      guarantor_name = Some guarantorName, loan_status = status,
      loan_created_at = issueDate, due_date = c_dueDate b,
      processed_by = (if status \<noteq> ''pending'' then Some admin else None),
      processed_at = (if status \<noteq> ''pending'' then Some (now e) else None),
      rejection_reason = None\<rparr>"

definition create_personal :: "env \<Rightarrow> string \<Rightarrow> int \<Rightarrow> int \<Rightarrow> string \<Rightarrow> datetime \<Rightarrow> transaction" where
  "create_personal e userId amount totalAmountToAdd name issueDate =
     \<lparr>tx_user_id = Some userId, tx_type = ''withdrawal'', tx_amount = amount,
      tx_description = ''Loan of $'' @ toLocaleString_en_IN e amount
        @ '' approved. Total outstanding: $'' @ toLocaleString_en_IN e totalAmountToAdd @ ''.'',
      tx_user_full_name = name, tx_created_at = issueDate\<rparr>"

definition create_public :: "int \<Rightarrow> string \<Rightarrow> datetime \<Rightarrow> transaction" where
  "create_public amount name issueDate =
     \<lparr>tx_user_id = None, tx_type = ''withdrawal'', tx_amount = amount,
      tx_description = ''Loan'', tx_user_full_name = name, tx_created_at = issueDate\<rparr>"

text \<open>Step 5, the financial updates; each result is checked. \<open>Inl\<close> is what is thrown.\<close>

definition create_loan_financials ::
  "env \<Rightarrow> string \<Rightarrow> int \<Rightarrow> string \<Rightarrow> datetime \<Rightarrow> store \<Rightarrow> (string \<times> store) + store" where
  "create_loan_financials e userId amount name issueDate db =
     (case select_single e SelectLoanTier
             (filter (\<lambda>t. tier_amount t = amount) (loan_tiers db)) of
        Inl msg \<Rightarrow>
          Inl (''Could not find loan tier for amount '' @ int_to_string amount
               @ ''. Error: '' @ msg, db)
      | Inr loanTier \<Rightarrow>
          (case fault e RpcIncrementUserOutstandingAmount of
             Some msg \<Rightarrow> Inl (msg, db)
           | None \<Rightarrow>
             (let db1 = increment_user_outstanding_amount userId (amount + fine loanTier) db in
              case fault e InsertPersonalTransaction of
                Some msg \<Rightarrow> Inl (msg, db1)
              | None \<Rightarrow>
                (let db2 = insert_transaction
                       (create_personal e userId amount (amount + fine loanTier) name issueDate) db1 in
                 case fault e InsertPublicTransaction of
                   Some msg \<Rightarrow> Inl (msg, db2)
                 | None \<Rightarrow> Inr (insert_transaction (create_public amount name issueDate) db2)))))"

definition admin_create_loan ::
  "env \<Rightarrow> create_loan_body request \<Rightarrow> store \<Rightarrow> response \<times> store" where
  "admin_create_loan e req db =
     (if http_method req = ''OPTIONS'' then (Response 200 NoBody, db)
      else case admin_check e req db of
        Inl r \<Rightarrow> (r, db)
      | Inr admin \<Rightarrow>
        (case body req of
           None \<Rightarrow> (thrown bad_json, db)
         | Some b \<Rightarrow>
           (case (c_amount b, c_issueDate b) of
              (Some amount, Some issueDate) \<Rightarrow>
                if falsy (c_userId b) \<or> amount = 0 \<or> falsy (c_guarantorId b) \<or> falsy (c_status b)
                   \<or> or_empty (c_status b)
                        \<notin> set [''pending'', ''in-process'', ''rejected'', ''closed'']
                then (Response 400 (ErrorJson ''Missing or invalid required fields.''), db)
                else (case fault e SelectProfilesIn of
                   Some msg \<Rightarrow> (thrown msg, db)
                 | None \<Rightarrow>
                   (let userId = or_empty (c_userId b);
                        guarantorId = or_empty (c_guarantorId b);
                        status = or_empty (c_status b);
                        users = filter (\<lambda>p. profile_id p \<in> set [userId, guarantorId]) (profiles db);
                        userFullName = profile_name (find (\<lambda>u. profile_id u = userId) users);
                        guarantorName = profile_name (find (\<lambda>u. profile_id u = guarantorId) users);
                        newLoan = new_loan e admin b userId amount status issueDate guarantorName
                    in case fault e InsertLoanRequest of
                      Some msg \<Rightarrow> (thrown msg, db)
                    | None \<Rightarrow>
                      (let db1 = db\<lparr>loan_requests := loan_requests db @ [newLoan]\<rparr> in
                       if status = ''in-process'' \<or> status = ''closed''
                       then (case create_loan_financials e userId amount userFullName issueDate db1 of
                               Inl (msg, db2) \<Rightarrow> (thrown msg, db2)
                             | Inr db2 \<Rightarrow>
                                 (Response 200 (LoanCreatedJson ''Loan created successfully'' newLoan),
                                  db2))
                       else (Response 200 (LoanCreatedJson ''Loan created successfully'' newLoan),
                             db1))))
            | _ \<Rightarrow> (Response 400 (ErrorJson ''Missing or invalid required fields.''), db))))"

section \<open>submit-payment-proof\<close>

record upload_file =
  file_name :: string
  file_type :: string
  file_content :: string

record submit_form =
  s_proof :: "upload_file option"
  s_year :: "string option"
  s_month :: "string option"

text \<open>
  \<open>parseInt(s)\<close> on a text: white space is skipped, a sign is read, then the digits
  (hexadecimal ones after \<open>0x\<close>); \<open>None\<close> is \<open>NaN\<close>.
\<close>

definition hex_digits :: string where
  "hex_digits = ''0123456789abcdef''"

definition lower_hex :: "char \<Rightarrow> char" where
  "lower_hex c = (case map_of (zip ''ABCDEF'' ''abcdef'') c of Some l \<Rightarrow> l | None \<Rightarrow> c)"

definition hex_value :: "char \<Rightarrow> nat" where
  "hex_value c = length (takeWhile (\<lambda>h. h \<noteq> lower_hex c) hex_digits)"

definition parse_digits :: "string \<Rightarrow> int option" where
  "parse_digits s =
     (if take 2 s = ''0x'' \<or> take 2 s = ''0X''
      then (let ds = takeWhile (\<lambda>c. lower_hex c \<in> set hex_digits) (drop 2 s)
            in if ds = [] then None
               else Some (int (foldl (\<lambda>n c. 16 * n + hex_value c) 0 ds)))
      else (let ds = takeWhile is_digit s
            in if ds = [] then None else Some (int (parseInt ds))))"

definition js_parseInt :: "string \<Rightarrow> int option" where
  "js_parseInt s =
     (case dropWhile is_space s of
        [] \<Rightarrow> None
      | c # cs \<Rightarrow>
          if c = CHR ''-'' then map_option uminus (parse_digits cs)
          else if c = CHR ''+'' then parse_digits cs
          else parse_digits (c # cs))"

text \<open>\<open>new Date(parseInt(year), parseInt(month) - 1, 1)\<close>.\<close>

definition contribution_month_of :: "string \<Rightarrow> string \<Rightarrow> datetime option" where
  "contribution_month_of year month =
     (case (js_parseInt year, js_parseInt month) of
        (Some y, Some m) \<Rightarrow> js_date y (m - 1)
      | _ \<Rightarrow> None)"

text \<open>\<open>file.name.split('.').pop()\<close>: what follows the last dot, or the whole name.\<close>

definition file_ext :: "string \<Rightarrow> string" where
  "file_ext name = rev (takeWhile (\<lambda>c. c \<noteq> CHR ''.'') (rev name))"

definition storage_upload :: "string \<Rightarrow> string \<Rightarrow> store \<Rightarrow> store" where
  "storage_upload path content db = db\<lparr>storage_objects := storage_objects db @ [(path, content)]\<rparr>"

definition new_proof :: "env \<Rightarrow> string \<Rightarrow> string \<Rightarrow> datetime \<Rightarrow> string \<Rightarrow> payment_proof" where
  "new_proof e userId userFullName contributionMonth filePath =
     \<lparr>proof_id = generated_id e, proof_user_id = userId, proof_user_full_name = userFullName,
      contribution_month = contributionMonth, file_path = filePath, proof_status = ''pending'',
      proof_notes = None, proof_processed_by = None, proof_processed_at = None\<rparr>"

definition submit_payment_proof ::
  "env \<Rightarrow> submit_form request \<Rightarrow> store \<Rightarrow> response \<times> store" where
  "submit_payment_proof e req db =
     (if http_method req = ''OPTIONS'' then (Response 200 NoBody, db)
      else if falsy (authorization req) then (thrown ''Authorization header missing'', db)
      else case getUser e (remove_first ''Bearer '' (or_empty (authorization req))) of
        None \<Rightarrow> (thrown ''User not authenticated'', db)
      | Some userId \<Rightarrow>
        (case select_single e SelectProfileName
                (filter (\<lambda>p. profile_id p = userId) (profiles db)) of
           Inl msg \<Rightarrow> (thrown (''Could not fetch user profile: '' @ msg), db)
         | Inr profile \<Rightarrow>
           (case body req of
              None \<Rightarrow> (thrown ''Missing content type'', db)
            | Some form \<Rightarrow>
              (case s_proof form of
                 None \<Rightarrow>
                   (Response 400 (ErrorJson ''Missing required fields: proof, year, or month.''), db)
               | Some file \<Rightarrow>
                 if falsy (s_year form) \<or> falsy (s_month form)
                 then (Response 400
                         (ErrorJson ''Missing required fields: proof, year, or month.''), db)
                 else
                   (let filePath = userId @ ''-'' @ int_to_string (date_now e) @ ''.''
                          @ file_ext (file_name file)
                    in case (case fault e StorageUpload of
                               Some msg \<Rightarrow> Some msg
                             | None \<Rightarrow> if filePath \<in> fst ` set (storage_objects db)
                                        then Some ''The resource already exists'' else None) of
                      Some msg \<Rightarrow> (thrown (''Storage upload failed: '' @ msg), db)
                    | None \<Rightarrow>
                      (let db1 = storage_upload filePath (file_content file) db in
                       case contribution_month_of (or_empty (s_year form))
                              (or_empty (s_month form)) of
                         None \<Rightarrow> (thrown ''Invalid time value'', db1)
                       | Some contributionMonth \<Rightarrow>
                         (case fault e InsertPaymentProof of
                            Some msg \<Rightarrow>
                              (thrown (''Database insert failed: '' @ msg),
                               fire_and_forget e StorageRemove (storage_remove filePath) db1)
                          | None \<Rightarrow>
                              (Response 200 (MessageJson ''Proof submitted successfully''),
                               db1\<lparr>payment_proofs := payment_proofs db1 @
                                 [new_proof e userId
                                    (full_name (first_name profile) (last_name profile))
                                    contributionMonth filePath]\<rparr>))))))))"

section \<open>monthly-dues\<close>

text \<open>
  Modelled from the spec: the SQL routine \<open>increment_outstanding_amounts\<close> is not among
  the sources. The spec: monthly dues ``increments every non-admin member's
  outstanding_amount by a fixed amount''.
\<close>

definition increment_outstanding_amounts :: "int \<Rightarrow> store \<Rightarrow> store" where
  "increment_outstanding_amounts amount_to_add db =
     db\<lparr>profiles :=
       map (\<lambda>p. if role p \<noteq> ''admin''
                then p\<lparr>outstanding_amount := outstanding_amount p + amount_to_add\<rparr> else p)
         (profiles db)\<rparr>"

definition monthly_dues :: "env \<Rightarrow> unit request \<Rightarrow> store \<Rightarrow> response \<times> store" where
  "monthly_dues e req db =
     (if http_method req = ''OPTIONS'' then (Response 200 NoBody, db)
      else case fault e RpcIncrementOutstandingAmounts of
        Some msg \<Rightarrow> (Response 500 (ErrorDetailsJson msg), db)
      | None \<Rightarrow>
          (Response 200
             (MessageJson ''Successfully updated outstanding amounts for all users by 500.''),
           increment_outstanding_amounts 500 db))"

section \<open>CSV export\<close>

text \<open>A cell \<open>row[col]\<close> of a record; \<open>String\<close> of a whole number is its decimal text.\<close>

datatype jsval = JNull | JUndefined | JString string | JNumber int

definition cell_text :: "jsval \<Rightarrow> string" where
  "cell_text v =
     (case v of JNull \<Rightarrow> [] | JUndefined \<Rightarrow> []
      | JString s \<Rightarrow> s | JNumber n \<Rightarrow> int_to_string n)"

definition dquote :: char where
  "dquote = CHR 0x22"

definition newline :: char where
  "newline = CHR 0x0A"

definition comma :: char where
  "comma = CHR '',''"

text \<open>\<open>xs.join(sep)\<close>.\<close>

fun join :: "string \<Rightarrow> string list \<Rightarrow> string" where
  "join sep [] = []"
| "join sep [x] = x"
| "join sep (x # y # ys) = x @ sep @ join sep (y # ys)"

text \<open>The escape of one value: \<open>val.replace(/"/g, '""')\<close> between quotes.\<close>

definition csv_escape :: "string \<Rightarrow> string" where
  "csv_escape val =
     (if comma \<in> set val \<or> dquote \<in> set val \<or> newline \<in> set val
      then [dquote] @ concat (map (\<lambda>c. if c = dquote then [dquote, dquote] else [c]) val)
           @ [dquote]
      else val)"

definition toCsv :: "(string \<Rightarrow> jsval) list \<Rightarrow> string list \<Rightarrow> string" where
  "toCsv data columns =
     join [comma] columns @ [newline]
       @ join [newline]
           (map (\<lambda>row. join [comma] (map (\<lambda>col. csv_escape (cell_text (row col))) columns)) data)"

definition transaction_columns :: "string list" where
  "transaction_columns =
     [''id'', ''created_at'', ''user_id'', ''type'', ''amount'', ''description'', ''user_full_name'']"

section \<open>Reading CSV back\<close>

text \<open>
  The reader of the round trip is not code of the repository. It follows the spec's
  words, ``re-parsing under RFC4180 rules'': a record is a line of fields between commas;
  a field is either plain text or stands between double quotes, where a doubled quote
  is one quote and commas and line breaks are text; the line break is CR LF, and a last
  line break ends the file. Any character other than the comma, the double quote, CR and
  LF is text. With \<open>lf\<close> a line feed alone is a line break too, as most readers
  allow; without it the reader keeps to the letter of the RFC. \<open>None\<close> is a text that
  is not CSV.
\<close>

definition carriage_return :: char where
  "carriage_return = CHR 0x0D"

datatype csv_state = FieldStart | InPlain | InQuoted | QuoteSeen | CRSeen

fun rfc4180 ::
  "bool \<Rightarrow> csv_state \<Rightarrow> string \<Rightarrow> string list \<Rightarrow> string list list \<Rightarrow> string
     \<Rightarrow> string list list option" where
  "rfc4180 lf st fld flds recs [] =
     (case st of
        InQuoted \<Rightarrow> None
      | CRSeen \<Rightarrow> None
      | FieldStart \<Rightarrow> if flds = [] then Some recs else Some (recs @ [flds @ [fld]])
      | _ \<Rightarrow> Some (recs @ [flds @ [fld]]))"
| "rfc4180 lf st fld flds recs (c # cs) =
     (case st of
        FieldStart \<Rightarrow>
          if c = dquote then rfc4180 lf InQuoted [] flds recs cs
          else if c = comma then rfc4180 lf FieldStart [] (flds @ [[]]) recs cs
          else if c = carriage_return then rfc4180 lf CRSeen [] flds recs cs
          else if c = newline
            then (if lf then rfc4180 lf FieldStart [] [] (recs @ [flds @ [[]]]) cs else None)
          else rfc4180 lf InPlain [c] flds recs cs
      | InPlain \<Rightarrow>
          if c = dquote then None
          else if c = comma then rfc4180 lf FieldStart [] (flds @ [fld]) recs cs
          else if c = carriage_return then rfc4180 lf CRSeen fld flds recs cs
          else if c = newline
            then (if lf then rfc4180 lf FieldStart [] [] (recs @ [flds @ [fld]]) cs else None)
          else rfc4180 lf InPlain (fld @ [c]) flds recs cs
      | InQuoted \<Rightarrow>
          if c = dquote then rfc4180 lf QuoteSeen fld flds recs cs
          else rfc4180 lf InQuoted (fld @ [c]) flds recs cs
      | QuoteSeen \<Rightarrow>
          if c = dquote then rfc4180 lf InQuoted (fld @ [dquote]) flds recs cs
          else if c = comma then rfc4180 lf FieldStart [] (flds @ [fld]) recs cs
          else if c = carriage_return then rfc4180 lf CRSeen fld flds recs cs
          else if c = newline
            then (if lf then rfc4180 lf FieldStart [] [] (recs @ [flds @ [fld]]) cs else None)
          else None
      | CRSeen \<Rightarrow>
          if c = newline then rfc4180 lf FieldStart [] [] (recs @ [flds @ [fld]]) cs
          else None)"

definition rfc4180_parse :: "bool \<Rightarrow> string \<Rightarrow> string list list option" where
  "rfc4180_parse lf s = rfc4180 lf FieldStart [] [] [] s"

text \<open>
  The condition under which \<open>toCsv\<close> puts a value between quotes, the values it
  writes so that they can be read back, and the texts of the cells of a record.
\<close>

definition needs_quotes :: "string \<Rightarrow> bool" where
  "needs_quotes val = (comma \<in> set val \<or> dquote \<in> set val \<or> newline \<in> set val)"

definition csv_safe :: "string \<Rightarrow> bool" where
  "csv_safe val = (carriage_return \<in> set val \<longrightarrow> needs_quotes val)"

definition row_texts :: "string list \<Rightarrow> (string \<Rightarrow> jsval) \<Rightarrow> string list" where
  "row_texts columns row = map (\<lambda>col. cell_text (row col)) columns"

section \<open>Notions of the properties, and a small fund for the concrete runs\<close>

text \<open>A response that reports an error: the payload \<open>{error: message}\<close>, status 400 or more.\<close>

definition is_error :: "response \<Rightarrow> bool" where
  "is_error r = (case r of Response st (ErrorJson m) \<Rightarrow> 400 \<le> st | _ \<Rightarrow> False)"

text \<open>The row that one call of the bulk loop asks \<open>admin_create_transaction\<close> to insert.\<close>

definition contribution_row :: "string \<Rightarrow> string \<Rightarrow> datetime \<Rightarrow> transaction" where
  "contribution_row userId userFullName d =
     \<lparr>tx_user_id = Some userId, tx_type = ''deposit'', tx_amount = 500,
      tx_description = ''Monthly contribution for '' @ format_MMMM_yyyy d,
      tx_user_full_name = userFullName, tx_created_at = d\<rparr>"

definition ex_env :: env where
  "ex_env =
     \<lparr>getUser = (\<lambda>t. if t = ''admin-token'' then Some ''admin-1''
                     else if t = ''member-token'' then Some ''member-1'' else None),
      fault = (\<lambda>c. None),
      now = \<lparr>dt_year = 2024, dt_month = 2, dt_day = 10, dt_ms = 0\<rparr>,
      toLocaleString_en_IN = int_to_string,
      month_year_long = format_MMMM_yyyy,
      getUserById_email = (\<lambda>u. None),
      generated_id = ''row-9'',
      date_now = 1710028800000,
      adjust_profiles = (\<lambda>u t a ps. ps),
      adjust_main = (\<lambda>t a bal. if t = ''deposit'' then bal + a else bal - a)\<rparr>"

definition ex_admin :: profile where
  "ex_admin = \<lparr>profile_id = ''admin-1'', first_name = Some ''Asha'', last_name = None,
     role = ''admin'', outstanding_amount = 0\<rparr>"

definition ex_member :: profile where
  "ex_member = \<lparr>profile_id = ''member-1'', first_name = Some ''Ravi'', last_name = Some ''K'',
     role = ''user'', outstanding_amount = 1000\<rparr>"

definition ex_loan :: "string \<Rightarrow> string \<Rightarrow> loan_request" where
  "ex_loan lid st =
     \<lparr>loan_id = lid, loan_user_id = ''member-1'', loan_user_email = None, loan_amount = 5000,
      loan_reason = None, guarantor_id = Some ''admin-1'', guarantor_name = Some ''Asha'',
      loan_status = st,
      loan_created_at = \<lparr>dt_year = 2024, dt_month = 0, dt_day = 15, dt_ms = 0\<rparr>,
      due_date = None, processed_by = None, processed_at = None, rejection_reason = None\<rparr>"

definition ex_tier :: loan_tier where
  "ex_tier = \<lparr>tier_amount = 5000, fine = 250, repayment_info = Some ''12 Months''\<rparr>"

definition ex_proof :: payment_proof where
  "ex_proof =
     \<lparr>proof_id = ''proof-1'', proof_user_id = ''member-1'', proof_user_full_name = ''Ravi K'',
      contribution_month = \<lparr>dt_year = 2024, dt_month = 1, dt_day = 1, dt_ms = 0\<rparr>,
      file_path = ''member-1-1706745600000.png'', proof_status = ''pending'',
      proof_notes = None, proof_processed_by = None, proof_processed_at = None\<rparr>"

definition ex_store :: store where
  "ex_store =
     \<lparr>profiles = [ex_admin, ex_member],
      loan_requests = [ex_loan ''loan-1'' ''approved'', ex_loan ''loan-2'' ''pending''],
      loan_tiers = [ex_tier],
      transactions = [],
      payment_proofs = [ex_proof],
      notifications = [],
      main_balance = 0,
      storage_objects = [(''member-1-1706745600000.png'', ''image'')]\<rparr>"

definition as_admin :: "'b \<Rightarrow> 'b request" where
  "as_admin b = \<lparr>http_method = ''POST'', authorization = Some ''Bearer admin-token'',
     body = Some b\<rparr>"

definition as_member :: "'b \<Rightarrow> 'b request" where
  "as_member b = \<lparr>http_method = ''POST'', authorization = Some ''Bearer member-token'',
     body = Some b\<rparr>"

definition ex_approve_proof :: process_proof_body where
  "ex_approve_proof = \<lparr>pp_proofId = Some ''proof-1'', pp_status = Some ''approved'', pp_notes = None\<rparr>"

definition ex_reject_proof :: process_proof_body where
  "ex_reject_proof = \<lparr>pp_proofId = Some ''proof-1'', pp_status = Some ''rejected'',
     pp_notes = Some ''unreadable''\<rparr>"

definition ex_approve_loan :: process_loan_body where
  "ex_approve_loan = \<lparr>p_loanId = Some ''loan-2'', p_status = Some ''approved'',
     p_rejection_reason = None\<rparr>"

definition ex_bulk :: "int \<Rightarrow> int \<Rightarrow> bulk_body" where
  "ex_bulk startMonth endMonth =
     \<lparr>b_userId = Some ''member-1'', b_startYear = Some 2024, b_startMonth = Some startMonth,
      b_endYear = Some 2024, b_endMonth = Some endMonth\<rparr>"

definition ex_create :: "string \<Rightarrow> create_loan_body" where
  "ex_create st =
     \<lparr>c_userId = Some ''member-1'', c_amount = Some 5000, c_reason = Some ''entered later'',
      c_guarantorId = Some ''admin-1'', c_status = Some st,
      c_issueDate = Some \<lparr>dt_year = 2023, dt_month = 5, dt_day = 1, dt_ms = 0\<rparr>,
      c_dueDate = None\<rparr>"

definition ex_form :: submit_form where
  "ex_form = \<lparr>s_proof = Some \<lparr>file_name = ''receipt.png'', file_type = ''image/png'',
                                file_content = ''scan''\<rparr>,
              s_year = Some ''2024'', s_month = Some ''3''\<rparr>"

definition ex_env_insert_fails :: env where
  "ex_env_insert_fails =
     ex_env\<lparr>fault := (\<lambda>c. if c = InsertPaymentProof then Some ''duplicate key'' else None)\<rparr>"

definition ex_env_writes_fail :: env where
  "ex_env_writes_fail =
     ex_env\<lparr>fault := (\<lambda>c. if c = RpcIncrementUserOutstandingAmount
                               \<or> c = InsertPersonalTransaction \<or> c = InsertPublicTransaction
                            then Some ''connection lost'' else None)\<rparr>"

definition ex_env_remove_fails :: env where
  "ex_env_remove_fails =
     ex_env\<lparr>fault := (\<lambda>c. if c = StorageRemove then Some ''storage unavailable'' else None)\<rparr>"

definition ex_env_insert_and_remove_fail :: env where
  "ex_env_insert_and_remove_fail =
     ex_env\<lparr>fault := (\<lambda>c. if c = InsertPaymentProof then Some ''duplicate key''
                            else if c = StorageRemove then Some ''storage unavailable''
                            else None)\<rparr>"

definition ex_row :: "string \<Rightarrow> jsval" where
  "ex_row col =
     (case map_of
        [(''id'', JNumber 7), (''created_at'', JString ''2024-03-10T00:00:00+00:00''),
         (''user_id'', JNull), (''type'', JString ''withdrawal''), (''amount'', JNumber 5000),
         (''description'', JString (''Loan, '' @ [dquote] @ ''first'' @ [dquote])),
         (''user_full_name'', JString ''Ravi K'')] col of
        Some v \<Rightarrow> v
      | None \<Rightarrow> JUndefined)"

definition ex_cr_row :: "string \<Rightarrow> jsval" where
  "ex_cr_row col =
     (if col = ''user_full_name'' then JString (''Ravi'' @ [carriage_return]) else ex_row col)"

section \<open>Properties\<close>

subsection \<open>Auxiliary facts\<close>

lemma select_single_Inr:
  "select_single e c rows = Inr r \<longleftrightarrow> fault e c = None \<and> rows = [r]"
  by (auto simp: select_single_def split: option.splits list.splits)

lemma is_error_simps [simp]:
  "is_error (thrown m)" "is_error forbidden" "is_error (Response 400 (ErrorJson m))"
  "\<not> is_error (Response st (MessageJson m))" "\<not> is_error (Response st (LoanCreatedJson m l))"
  by (simp_all add: is_error_def thrown_def forbidden_def)

lemma admin_check_is_error: "admin_check e req db = Inl r \<Longrightarrow> is_error r"
  by (auto simp: admin_check_def split: option.splits if_splits sum.splits)

lemma filter_single_mem: "filter P xs = [x] \<Longrightarrow> x \<in> set xs \<and> P x"
proof -
  assume a: "filter P xs = [x]"
  have "x \<in> set (filter P xs)" by (simp add: a)
  then show ?thesis by simp
qed

lemma ex_admin_check: "admin_check ex_env (as_admin b) ex_store = Inr ''admin-1''"
  by (simp add: admin_check_def as_admin_def ex_env_def ex_store_def ex_admin_def
      ex_member_def select_single_def)

lemma ex_member_check: "admin_check ex_env (as_member b) ex_store = Inl forbidden"
  by (simp add: admin_check_def as_member_def ex_env_def ex_store_def ex_admin_def
      ex_member_def select_single_def)

lemma ex_admin_check_faulty:
  "fault e SelectProfileRole = None \<Longrightarrow> getUser e = getUser ex_env
    \<Longrightarrow> admin_check e (as_admin b) ex_store = Inr ''admin-1''"
  by (simp add: admin_check_def as_admin_def ex_env_def ex_store_def ex_admin_def
      ex_member_def select_single_def)

subsection \<open>Disbursement\<close>

text \<open>
  What a disbursement does when the store serves the increment routine and the two
  inserts, three calls whose result the handler does not look at: for every loan request
  that the handler finds, with the tier of its amount, a run that answers with the
  success message found the loan \<open>approved\<close>, has raised the outstanding amount of the
  owning member by exactly amount + fine, has added exactly two rows to the transactions,
  both withdrawals of the amount, the first owned by the member and the second by
  nobody, and has set the status of the loan to \<open>in-process\<close>.
\<close>


lemma disburse_effects:
  assumes run: "admin_disburse_loan e req db = (Response 200 (MessageJson m), db')"
    and served: "fault e RpcIncrementUserOutstandingAmount = None"
      "fault e InsertPersonalTransaction = None" "fault e InsertPublicTransaction = None"
    and b: "body req = Some b"
    and loan: "filter (\<lambda>l. loan_id l = or_empty (d_loanId b)) (loan_requests db) = [loan]"
    and tier: "filter (\<lambda>t. tier_amount t = loan_amount loan) (loan_tiers db) = [tier]"
  shows "loan_status loan = ''approved''
    \<and> profiles db' = map (\<lambda>p. if profile_id p = loan_user_id loan
          then p\<lparr>outstanding_amount := outstanding_amount p + (loan_amount loan + fine tier)\<rparr>
          else p) (profiles db)
    \<and> (\<exists>t1 t2. transactions db' = transactions db @ [t1, t2]
          \<and> tx_type t1 = ''withdrawal'' \<and> tx_amount t1 = loan_amount loan
          \<and> tx_user_id t1 = Some (loan_user_id loan)
          \<and> tx_type t2 = ''withdrawal'' \<and> tx_amount t2 = loan_amount loan
          \<and> tx_user_id t2 = None)
    \<and> loan_requests db' = map (\<lambda>l. if loan_id l = loan_id loan
          then l\<lparr>loan_status := ''in-process''\<rparr> else l) (loan_requests db)"
proof -
  have lid: "loan_id loan = or_empty (d_loanId b)"
    using filter_single_mem[OF loan] by simp
  show ?thesis
    using run served b loan tier lid
    by (auto simp: admin_disburse_loan_def select_single_def thrown_def
        disburse_writes_def fire_and_forget_def Let_def insert_transaction_def
        insert_notification_def set_loan_status_def increment_user_outstanding_amount_def
        disburse_personal_def disburse_public_def
        dest: admin_check_is_error
        split: if_splits sum.splits option.splits)
qed

lemma ex_disburse_run:
  "fst (admin_disburse_loan ex_env (as_admin \<lparr>d_loanId = Some ''loan-1''\<rparr>) ex_store)
     = Response 200 (MessageJson ''Loan successfully disbursed.'')"
  by (simp add: admin_disburse_loan_def ex_admin_check)
     (simp add: as_admin_def ex_env_def ex_store_def ex_loan_def ex_tier_def falsy_def
        or_empty_def select_single_def Let_def)

lemma ex_disburse_effects:
  "map outstanding_amount
      (profiles (snd (admin_disburse_loan ex_env (as_admin \<lparr>d_loanId = Some ''loan-1''\<rparr>) ex_store)))
     = [0, 6250]
   \<and> length (transactions
        (snd (admin_disburse_loan ex_env (as_admin \<lparr>d_loanId = Some ''loan-1''\<rparr>) ex_store))) = 2
   \<and> map loan_status (loan_requests
        (snd (admin_disburse_loan ex_env (as_admin \<lparr>d_loanId = Some ''loan-1''\<rparr>) ex_store)))
     = [''in-process'', ''pending'']"
proof -
  let ?run = "admin_disburse_loan ex_env (as_admin \<lparr>d_loanId = Some ''loan-1''\<rparr>) ex_store"
  have run: "?run = (Response 200 (MessageJson ''Loan successfully disbursed.''), snd ?run)"
    using ex_disburse_run by (metis prod.collapse)
  have "loan_status (ex_loan ''loan-1'' ''approved'') = ''approved''
    \<and> profiles (snd ?run) = map (\<lambda>p. if profile_id p = loan_user_id (ex_loan ''loan-1'' ''approved'')
          then p\<lparr>outstanding_amount := outstanding_amount p
             + (loan_amount (ex_loan ''loan-1'' ''approved'') + fine ex_tier)\<rparr>
          else p) (profiles ex_store)
    \<and> (\<exists>t1 t2. transactions (snd ?run) = transactions ex_store @ [t1, t2]
          \<and> tx_type t1 = ''withdrawal'' \<and> tx_amount t1 = loan_amount (ex_loan ''loan-1'' ''approved'')
          \<and> tx_user_id t1 = Some (loan_user_id (ex_loan ''loan-1'' ''approved''))
          \<and> tx_type t2 = ''withdrawal'' \<and> tx_amount t2 = loan_amount (ex_loan ''loan-1'' ''approved'')
          \<and> tx_user_id t2 = None)
    \<and> loan_requests (snd ?run) = map (\<lambda>l. if loan_id l = loan_id (ex_loan ''loan-1'' ''approved'')
          then l\<lparr>loan_status := ''in-process''\<rparr> else l) (loan_requests ex_store)"
  proof (rule disburse_effects[OF run])
    show "fault ex_env RpcIncrementUserOutstandingAmount = None"
      "fault ex_env InsertPersonalTransaction = None"
      "fault ex_env InsertPublicTransaction = None"
      by (simp_all add: ex_env_def)
    show "body (as_admin \<lparr>d_loanId = Some ''loan-1''\<rparr>) = Some \<lparr>d_loanId = Some ''loan-1''\<rparr>"
      by (simp add: as_admin_def)
    show "filter (\<lambda>l. loan_id l = or_empty (d_loanId \<lparr>d_loanId = Some ''loan-1''\<rparr>))
            (loan_requests ex_store) = [ex_loan ''loan-1'' ''approved'']"
      by (simp add: ex_store_def ex_loan_def or_empty_def)
    show "filter (\<lambda>t. tier_amount t = loan_amount (ex_loan ''loan-1'' ''approved''))
            (loan_tiers ex_store) = [ex_tier]"
      by (simp add: ex_store_def ex_loan_def ex_tier_def)
  qed
  then show ?thesis
    by (auto simp: ex_store_def ex_loan_def ex_tier_def ex_admin_def ex_member_def)
qed

text \<open>
  Claim C1 promises these effects of every successful disbursement. The handler does not
  read the results of the increment routine and of the two inserts (admin-create-loan,
  which does the same three writes, checks each of them): when the store fails these
  three calls for the approved loan of 5000, whose tier is there, the handler still
  answers \<open>Loan successfully disbursed.\<close> and sets the loan \<open>in-process\<close>, while no
  outstanding amount has changed and no transaction was added.
\<close>

theorem disburse_success_without_writes:
  "fst (admin_disburse_loan ex_env_writes_fail (as_admin \<lparr>d_loanId = Some ''loan-1''\<rparr>) ex_store)
     = Response 200 (MessageJson ''Loan successfully disbursed.'')
   \<and> map loan_status (loan_requests
        (snd (admin_disburse_loan ex_env_writes_fail (as_admin \<lparr>d_loanId = Some ''loan-1''\<rparr>)
               ex_store)))
     = [''in-process'', ''pending'']
   \<and> profiles (snd (admin_disburse_loan ex_env_writes_fail
        (as_admin \<lparr>d_loanId = Some ''loan-1''\<rparr>) ex_store)) = profiles ex_store
   \<and> transactions (snd (admin_disburse_loan ex_env_writes_fail
        (as_admin \<lparr>d_loanId = Some ''loan-1''\<rparr>) ex_store)) = []
   \<and> transactions ex_store = []
   \<and> loan_tiers ex_store = [ex_tier]"
proof -
  have a: "admin_check ex_env_writes_fail (as_admin \<lparr>d_loanId = Some ''loan-1''\<rparr>) ex_store
      = Inr ''admin-1''"
    by (rule ex_admin_check_faulty) (simp_all add: ex_env_writes_fail_def)
  show ?thesis
    by (simp add: admin_disburse_loan_def a)
       (simp add: as_admin_def ex_env_writes_fail_def ex_env_def ex_store_def ex_loan_def
          ex_tier_def falsy_def or_empty_def select_single_def Let_def disburse_writes_def
          fire_and_forget_def set_loan_status_def insert_notification_def)
qed

subsection \<open>Loan status transitions\<close>

text \<open>
  Claim C2. Approve and reject (process-loan-request) are accepted only for a loan whose
  status is \<open>pending\<close>, disburse only for one whose status is \<open>approved\<close>: called
  (a request that is not a CORS preflight) for a loan in any other status, whatever the
  caller, the body and the environment are, the handler answers with an error payload
  and the store is what it was.
\<close>

theorem transition_needs_source_state:
  "(http_method rq \<noteq> ''OPTIONS'' \<and>
      (\<forall>b. body rq = Some b \<longrightarrow>
         (\<forall>l \<in> set (loan_requests db). loan_id l = or_empty (p_loanId b)
              \<longrightarrow> loan_status l \<noteq> ''pending''))
     \<longrightarrow> is_error (fst (process_loan_request e rq db))
         \<and> snd (process_loan_request e rq db) = db)
   \<and> (http_method rd \<noteq> ''OPTIONS'' \<and>
      (\<forall>b. body rd = Some b \<longrightarrow>
         (\<forall>l \<in> set (loan_requests db2). loan_id l = or_empty (d_loanId b)
              \<longrightarrow> loan_status l \<noteq> ''approved''))
     \<longrightarrow> is_error (fst (admin_disburse_loan e2 rd db2))
         \<and> snd (admin_disburse_loan e2 rd db2) = db2)"
proof (intro conjI impI)
  assume h: "http_method rq \<noteq> ''OPTIONS'' \<and>
      (\<forall>b. body rq = Some b \<longrightarrow>
         (\<forall>l \<in> set (loan_requests db). loan_id l = or_empty (p_loanId b)
              \<longrightarrow> loan_status l \<noteq> ''pending''))"
  have np: "loan_status l \<noteq> ''pending''"
    if "body rq = Some b" "select_single e SelectLoanRequest
         (filter (\<lambda>l. loan_id l = or_empty (p_loanId b)) (loan_requests db)) = Inr l" for b l
    using that h filter_single_mem[of "\<lambda>l. loan_id l = or_empty (p_loanId b)" "loan_requests db" l]
    by (auto simp: select_single_Inr)
  show "is_error (fst (process_loan_request e rq db))"
    using h np by (auto simp: process_loan_request_def dest: admin_check_is_error
        split: sum.splits option.splits)
  show "snd (process_loan_request e rq db) = db"
    using h np by (auto simp: process_loan_request_def split: sum.splits option.splits)
next
  assume h: "http_method rd \<noteq> ''OPTIONS'' \<and>
      (\<forall>b. body rd = Some b \<longrightarrow>
         (\<forall>l \<in> set (loan_requests db2). loan_id l = or_empty (d_loanId b)
              \<longrightarrow> loan_status l \<noteq> ''approved''))"
  have np: "loan_status l \<noteq> ''approved''"
    if "body rd = Some b" "select_single e2 SelectLoanRequest
         (filter (\<lambda>l. loan_id l = or_empty (d_loanId b)) (loan_requests db2)) = Inr l" for b l
    using that h filter_single_mem[of "\<lambda>l. loan_id l = or_empty (d_loanId b)" "loan_requests db2" l]
    by (auto simp: select_single_Inr)
  show "is_error (fst (admin_disburse_loan e2 rd db2))"
    using h np by (auto simp: admin_disburse_loan_def dest: admin_check_is_error
        split: sum.splits option.splits)
  show "snd (admin_disburse_loan e2 rd db2) = db2"
    using h np by (auto simp: admin_disburse_loan_def split: sum.splits option.splits)
qed

theorem transition_needs_source_state_witness:
  "is_error (fst (process_loan_request ex_env
       (as_admin \<lparr>p_loanId = Some ''loan-1'', p_status = Some ''approved'',
                  p_rejection_reason = None\<rparr>) ex_store))
   \<and> snd (process_loan_request ex_env
       (as_admin \<lparr>p_loanId = Some ''loan-1'', p_status = Some ''approved'',
                  p_rejection_reason = None\<rparr>) ex_store) = ex_store
   \<and> is_error (fst (admin_disburse_loan ex_env (as_admin \<lparr>d_loanId = Some ''loan-2''\<rparr>) ex_store))
   \<and> snd (admin_disburse_loan ex_env (as_admin \<lparr>d_loanId = Some ''loan-2''\<rparr>) ex_store) = ex_store"
  using transition_needs_source_state
    [of "as_admin \<lparr>p_loanId = Some ''loan-1'', p_status = Some ''approved'',
                     p_rejection_reason = None\<rparr>" ex_store ex_env
        "as_admin \<lparr>d_loanId = Some ''loan-2''\<rparr>" ex_store ex_env]
  by (simp add: as_admin_def ex_store_def ex_loan_def or_empty_def)

subsection \<open>Payment proofs\<close>

lemma ex_approve_proof_run:
  "fst (process_payment_proof ex_env (as_admin ex_approve_proof) ex_store)
     = Response 200 (MessageJson ''Proof successfully approved.'')"
  by (simp add: process_payment_proof_def ex_admin_check)
     (simp add: as_admin_def ex_env_def ex_store_def ex_proof_def ex_approve_proof_def falsy_def
        or_empty_def select_single_def)

lemma ex_reject_proof_run:
  "fst (process_payment_proof ex_env (as_admin ex_reject_proof) ex_store)
     = Response 200 (MessageJson ''Proof successfully rejected.'')"
  by (simp add: process_payment_proof_def ex_admin_check)
     (simp add: as_admin_def ex_env_def ex_store_def ex_proof_def ex_reject_proof_def falsy_def
        or_empty_def select_single_def)

text \<open>
  Claim C3 says that approving or rejecting a pending proof deletes the stored file. The
  handler asks the storage to remove it as its last step and only logs a failure of that
  call: with a storage that fails the removal, the approval still answers with its
  success message, the proof is \<open>approved\<close>, and the file is stored as before.
\<close>

theorem proof_file_kept_counterexample:
  "fst (process_payment_proof ex_env_remove_fails (as_admin ex_approve_proof) ex_store)
     = Response 200 (MessageJson ''Proof successfully approved.'')
   \<and> map proof_status (payment_proofs
        (snd (process_payment_proof ex_env_remove_fails (as_admin ex_approve_proof) ex_store)))
     = [''approved'']
   \<and> file_path ex_proof = ''member-1-1706745600000.png''
   \<and> storage_objects
        (snd (process_payment_proof ex_env_remove_fails (as_admin ex_approve_proof) ex_store))
     = [(''member-1-1706745600000.png'', ''image'')]"
proof -
  have a: "admin_check ex_env_remove_fails (as_admin ex_approve_proof) ex_store = Inr ''admin-1''"
    by (rule ex_admin_check_faulty) (simp_all add: ex_env_remove_fails_def)
  show ?thesis
    by (simp add: process_payment_proof_def a)
       (simp add: as_admin_def ex_env_remove_fails_def ex_env_def ex_store_def ex_proof_def
          ex_approve_proof_def falsy_def or_empty_def select_single_def fire_and_forget_def
          update_payment_proof_def insert_notification_def admin_create_transaction_def)
qed

text \<open>
  Claim C3, amended. For every payment proof that process-payment-proof finds: when the
  handler answers with its success message, the proof was \<open>pending\<close>. An approval has
  added exactly one row to the transactions, a deposit of the fixed amount 500 for the
  member, dated to the claimed contribution month; a rejection came with notes that are
  not empty and has added no row. In both cases the status of the proof is the
  requested one, and the stored objects are those of before without the file of the
  proof when the storage served the removal, and exactly those of before when it
  failed it.
\<close>

theorem proof_processing:
  assumes run: "process_payment_proof e req db = (Response 200 (MessageJson m), db')"
    and b: "body req = Some b"
    and found: "filter (\<lambda>p. proof_id p = or_empty (pp_proofId b)) (payment_proofs db) = [proof]"
  shows "proof_status proof = ''pending''
    \<and> (or_empty (pp_status b) = ''approved'' \<longrightarrow>
         (\<exists>t. transactions db' = transactions db @ [t]
            \<and> tx_type t = ''deposit'' \<and> tx_amount t = 500
            \<and> tx_created_at t = contribution_month proof
            \<and> tx_user_id t = Some (proof_user_id proof)))
    \<and> (or_empty (pp_status b) \<noteq> ''approved'' \<longrightarrow>
         or_empty (pp_status b) = ''rejected'' \<and> \<not> falsy (pp_notes b)
           \<and> transactions db' = transactions db)
    \<and> storage_objects db'
        = (if fault e StorageRemove = None
           then filter (\<lambda>obj. fst obj \<noteq> file_path proof) (storage_objects db)
           else storage_objects db)
    \<and> map proof_status (payment_proofs db')
        = map (\<lambda>p. if proof_id p = proof_id proof then or_empty (pp_status b) else proof_status p)
            (payment_proofs db)"
proof -
  have pid: "proof_id proof = or_empty (pp_proofId b)"
    using filter_single_mem[OF found] by simp
  show ?thesis
    using run b found pid
    by (auto simp: process_payment_proof_def select_single_def thrown_def
        fire_and_forget_def insert_notification_def storage_remove_def
        update_payment_proof_def admin_create_transaction_def
        dest: admin_check_is_error
        split: if_splits sum.splits option.splits)
qed

theorem proof_processing_witness:
  "length (transactions (snd (process_payment_proof ex_env (as_admin ex_approve_proof) ex_store))) = 1
   \<and> storage_objects
        (snd (process_payment_proof ex_env (as_admin ex_approve_proof) ex_store)) = []
   \<and> map proof_status
        (payment_proofs (snd (process_payment_proof ex_env (as_admin ex_approve_proof) ex_store)))
      = [''approved'']
   \<and> transactions (snd (process_payment_proof ex_env (as_admin ex_reject_proof) ex_store)) = []
   \<and> storage_objects
        (snd (process_payment_proof ex_env (as_admin ex_reject_proof) ex_store)) = []
   \<and> map proof_status
        (payment_proofs (snd (process_payment_proof ex_env (as_admin ex_reject_proof) ex_store)))
      = [''rejected'']"
proof -
  let ?a = "process_payment_proof ex_env (as_admin ex_approve_proof) ex_store"
  let ?r = "process_payment_proof ex_env (as_admin ex_reject_proof) ex_store"
  have ra: "?a = (Response 200 (MessageJson ''Proof successfully approved.''), snd ?a)"
    using ex_approve_proof_run by (metis prod.collapse)
  have rr: "?r = (Response 200 (MessageJson ''Proof successfully rejected.''), snd ?r)"
    using ex_reject_proof_run by (metis prod.collapse)
  have fa: "filter (\<lambda>p. proof_id p = or_empty (pp_proofId ex_approve_proof))
              (payment_proofs ex_store) = [ex_proof]"
    by (simp add: ex_store_def ex_proof_def ex_approve_proof_def or_empty_def)
  have fr: "filter (\<lambda>p. proof_id p = or_empty (pp_proofId ex_reject_proof))
              (payment_proofs ex_store) = [ex_proof]"
    by (simp add: ex_store_def ex_proof_def ex_reject_proof_def or_empty_def)
  have sv: "fault ex_env StorageRemove = None"
    by (simp add: ex_env_def)
  have ba: "body (as_admin ex_approve_proof) = Some ex_approve_proof"
    and br: "body (as_admin ex_reject_proof) = Some ex_reject_proof"
    by (simp_all add: as_admin_def)
  note A = proof_processing[OF ra ba fa]
  note R = proof_processing[OF rr br fr]
  have sa: "or_empty (pp_status ex_approve_proof) = ''approved''"
    and sr: "or_empty (pp_status ex_reject_proof) \<noteq> ''approved''"
    by (simp_all add: ex_approve_proof_def ex_reject_proof_def or_empty_def)
  from A sa obtain t where
    "transactions (snd ?a) = transactions ex_store @ [t]" by blast
  then have 1: "length (transactions (snd ?a)) = 1" by (simp add: ex_store_def)
  from R sr have 2: "transactions (snd ?r) = []" by (simp add: ex_store_def)
  from A have 3: "map proof_status (payment_proofs (snd ?a)) = [''approved'']"
    by (simp add: sa ex_store_def)
  from R have 4: "map proof_status (payment_proofs (snd ?r)) = [''rejected'']"
    by (simp add: sr ex_store_def)
  from A sv have 5: "storage_objects (snd ?a) = []"
    by (simp add: ex_store_def ex_proof_def)
  from R sv have 6: "storage_objects (snd ?r) = []"
    by (simp add: ex_store_def ex_proof_def)
  from 1 2 3 4 5 6 show ?thesis by blast
qed

subsection \<open>The due date of an approved loan\<close>

text \<open>
  A text of the form \<open><digits> Months\<close> matches the pattern with those digits, and a
  valid result of \<open>addMonths\<close> for a positive amount lies that many months later, on
  the same day of the month or on the last day of a shorter month, at the same time of
  day.
\<close>

lemma months_at_plain:
  assumes "ds \<noteq> []" "\<forall>c\<in>set ds. is_digit c"
  shows "months_at (ds @ '' Months'' @ rest) = Some ds"
proof -
  have sp: "\<not> is_digit CHR '' ''" "is_space CHR '' ''" "\<not> is_space CHR ''M''"
    by (simp_all add: is_digit_def is_space_def)
  have t: "takeWhile is_digit (ds @ CHR '' '' # ''Months'' @ rest) = ds"
    using assms(2) sp(1) by (simp add: takeWhile_append2)
  have d: "dropWhile is_digit (ds @ CHR '' '' # ''Months'' @ rest) = CHR '' '' # ''Months'' @ rest"
    using assms(2) sp(1) by (simp add: dropWhile_append2)
  have "months_at (ds @ CHR '' '' # ''Months'' @ rest) = Some ds"
    unfolding months_at_def t d using assms(1) sp by simp
  then show ?thesis by simp
qed

lemma match_months_plain:
  assumes "ds \<noteq> []" "\<forall>c\<in>set ds. is_digit c"
  shows "match_months (ds @ '' Months'' @ rest) = Some ds"
proof -
  obtain c cs where "ds @ '' Months'' @ rest = c # cs"
    using assms(1) by (cases ds) auto
  then show ?thesis
    using months_at_plain[OF assms, of rest] by simp
qed


lemma addMonths_fields:
  assumes "addMonths d n = Some r" "0 < n"
  shows "month_index r = month_index d + int n"
    and "dt_day r = min (dt_day d) (days_in_month (dt_year r) (dt_month r))"
    and "dt_ms r = dt_ms d" and "0 \<le> dt_month r" and "dt_month r < 12"
  using assms
  by (auto simp: addMonths_def Let_def month_index_def split: if_splits)

lemma ex_match_months: "match_months ''12 Months'' = Some ''12''"
  by (simp add: months_at_def is_digit_def is_space_def)

lemma ex_parseInt: "parseInt ''12'' = 12"
  by (simp add: parseInt_def)

lemma ex_addMonths_now:
  "addMonths \<lparr>dt_year = 2024, dt_month = 2, dt_day = 10, dt_ms = 0\<rparr> 12
     = Some \<lparr>dt_year = 2025, dt_month = 2, dt_day = 10, dt_ms = 0\<rparr>"
  by (simp add: addMonths_def Let_def days_in_month_def in_time_range_def date_le_def
      min_date_def max_date_def)

lemma ex_addMonths_issue:
  "addMonths \<lparr>dt_year = 2024, dt_month = 0, dt_day = 15, dt_ms = 0\<rparr> 12
     = Some \<lparr>dt_year = 2025, dt_month = 0, dt_day = 15, dt_ms = 0\<rparr>"
  by (simp add: addMonths_def Let_def days_in_month_def in_time_range_def date_le_def
      min_date_def max_date_def)

lemma ex_approve_loan_run:
  "process_loan_request ex_env (as_admin ex_approve_loan) ex_store
     = (Response 200 (MessageJson ''Loan request successfully approved.''),
        ex_store\<lparr>loan_requests :=
          [ex_loan ''loan-1'' ''approved'',
           (ex_loan ''loan-2'' ''approved'')
             \<lparr>due_date := Some \<lparr>dt_year = 2025, dt_month = 2, dt_day = 10, dt_ms = 0\<rparr>,
              processed_by := Some ''admin-1'',
              processed_at := Some \<lparr>dt_year = 2024, dt_month = 2, dt_day = 10, dt_ms = 0\<rparr>\<rparr>]\<rparr>)"
  by (simp add: process_loan_request_def ex_admin_check)
     (simp add: as_admin_def ex_env_def ex_store_def ex_loan_def ex_tier_def ex_approve_loan_def
        falsy_def or_empty_def select_single_def approval_due_date_def ex_match_months
        ex_parseInt ex_addMonths_now update_loan_request_def del: match_months.simps)

text \<open>
  Claim C4 says that the due date stored on approval is the issue date of the loan plus
  the months of the tier. The handler counts from \<open>new Date()\<close>, the moment of the
  approval: a loan issued (\<open>created_at\<close>) on 15 January 2024 and approved on 10 March
  2024 with the tier text \<open>12 Months\<close> gets the due date 10 March 2025, not 15 January
  2025.
\<close>

theorem due_date_from_issue_date_counterexample:
  "fst (process_loan_request ex_env (as_admin ex_approve_loan) ex_store)
     = Response 200 (MessageJson ''Loan request successfully approved.'')
   \<and> repayment_info ex_tier = Some ''12 Months''
   \<and> loan_status (ex_loan ''loan-2'' ''pending'') = ''pending''
   \<and> map due_date (loan_requests
         (snd (process_loan_request ex_env (as_admin ex_approve_loan) ex_store)))
       = [None, Some \<lparr>dt_year = 2025, dt_month = 2, dt_day = 10, dt_ms = 0\<rparr>]
   \<and> addMonths (loan_created_at (ex_loan ''loan-2'' ''pending'')) 12
       = Some \<lparr>dt_year = 2025, dt_month = 0, dt_day = 15, dt_ms = 0\<rparr>
   \<and> due_date (loan_requests
         (snd (process_loan_request ex_env (as_admin ex_approve_loan) ex_store)) ! 1)
       \<noteq> addMonths (loan_created_at (ex_loan ''loan-2'' ''pending'')) 12"
  by (simp add: ex_approve_loan_run)
     (simp add: ex_tier_def ex_loan_def ex_addMonths_issue ex_store_def)

text \<open>
  Claim C4, amended. For every pending loan request that is approved, and whose tier's
  repayment-info text matches the pattern \<open>(\d+)\s+Months\<close> with the digits \<open>ds\<close>:
  the due date stored on the loan is the moment of the approval plus \<open>parseInt ds\<close>
  months, in the sense of \<open>addMonths\<close> of date-fns, and it is a valid date.
\<close>

theorem approval_due_date:
  assumes run: "process_loan_request e req db = (Response 200 (MessageJson m), db')"
    and b: "body req = Some b"
    and st: "or_empty (p_status b) = ''approved''"
    and found: "filter (\<lambda>l. loan_id l = or_empty (p_loanId b)) (loan_requests db) = [loan]"
    and tier: "filter (\<lambda>t. tier_amount t = loan_amount loan) (loan_tiers db) = [tier]"
    and info: "repayment_info tier = Some s" "match_months s = Some ds"
  shows "loan_status loan = ''pending''
    \<and> addMonths (now e) (parseInt ds) \<noteq> None
    \<and> map due_date (loan_requests db')
        = map (\<lambda>l. if loan_id l = loan_id loan then addMonths (now e) (parseInt ds)
                    else due_date l) (loan_requests db)"
proof -
  have lid: "loan_id loan = or_empty (p_loanId b)"
    using filter_single_mem[OF found] by simp
  have "\<exists>admin. addMonths (now e) (parseInt ds) \<noteq> None \<and> loan_status loan = ''pending''
      \<and> db' = update_loan_request (or_empty (p_loanId b)) ''approved'' admin (now e)
               (p_rejection_reason b) (addMonths (now e) (parseInt ds)) db"
    using run b st found tier info
    by (auto simp: process_loan_request_def select_single_def thrown_def
        approval_due_date_def
        dest: admin_check_is_error
        split: if_splits sum.splits option.splits)
      metis
  then obtain admin where d: "addMonths (now e) (parseInt ds) \<noteq> None"
    and p: "loan_status loan = ''pending''"
    and db': "db' = update_loan_request (or_empty (p_loanId b)) ''approved'' admin (now e)
               (p_rejection_reason b) (addMonths (now e) (parseInt ds)) db"
    by blast
  from d obtain dd where dd: "addMonths (now e) (parseInt ds) = Some dd"
    by blast
  show ?thesis
    by (simp add: dd p db' lid update_loan_request_def comp_def)
qed

theorem approval_due_date_witness:
  "addMonths (now ex_env) (parseInt ''12'') \<noteq> None
   \<and> map due_date (loan_requests
         (snd (process_loan_request ex_env (as_admin ex_approve_loan) ex_store)))
       = [None, addMonths (now ex_env) (parseInt ''12'')]"
proof -
  let ?run = "process_loan_request ex_env (as_admin ex_approve_loan) ex_store"
  have run: "?run = (Response 200 (MessageJson ''Loan request successfully approved.''), snd ?run)"
    by (simp add: ex_approve_loan_run)
  have A: "loan_status (ex_loan ''loan-2'' ''pending'') = ''pending''
    \<and> addMonths (now ex_env) (parseInt ''12'') \<noteq> None
    \<and> map due_date (loan_requests (snd ?run))
        = map (\<lambda>l. if loan_id l = loan_id (ex_loan ''loan-2'' ''pending'')
                    then addMonths (now ex_env) (parseInt ''12'')
                    else due_date l) (loan_requests ex_store)"
  proof (rule approval_due_date[OF run])
    show "body (as_admin ex_approve_loan) = Some ex_approve_loan"
      by (simp add: as_admin_def)
    show "or_empty (p_status ex_approve_loan) = ''approved''"
      by (simp add: ex_approve_loan_def or_empty_def)
    show "filter (\<lambda>l. loan_id l = or_empty (p_loanId ex_approve_loan)) (loan_requests ex_store)
            = [ex_loan ''loan-2'' ''pending'']"
      by (simp add: ex_store_def ex_loan_def ex_approve_loan_def or_empty_def)
    show "filter (\<lambda>t. tier_amount t = loan_amount (ex_loan ''loan-2'' ''pending''))
            (loan_tiers ex_store) = [ex_tier]"
      by (simp add: ex_store_def ex_loan_def ex_tier_def)
    show "repayment_info ex_tier = Some ''12 Months''"
      by (simp add: ex_tier_def)
    show "match_months ''12 Months'' = Some ''12''"
      by (rule ex_match_months)
  qed
  then show ?thesis
    by (simp add: ex_store_def ex_loan_def)
qed

subsection \<open>The inline admin check\<close>

lemma admin_check_forbidden:
  assumes "h \<noteq> []" "getUser e (remove_first ''Bearer '' h) = Some u"
    and "\<forall>p\<in>set (profiles db). profile_id p = u \<longrightarrow> role p \<noteq> ''admin''"
  shows "admin_check e \<lparr>http_method = m, authorization = Some h, body = b\<rparr> db = Inl forbidden"
proof -
  have "role p \<noteq> ''admin''"
    if "select_single e SelectProfileRole (filter (\<lambda>p. profile_id p = u) (profiles db)) = Inr p"
    for p
    using that assms(3) filter_single_mem[of "\<lambda>p. profile_id p = u" "profiles db" p]
    by (auto simp: select_single_Inr)
  then show ?thesis
    using assms(1,2) by (auto simp: admin_check_def split: sum.splits)
qed

text \<open>
  Claim C5 says that every handler has the inline admin check. monthly-dues has none (nor
  have the two exports, notification-cron and the member's own submit-payment-proof): it
  never looks at the caller, so a member, whom the admin check refuses, raises the
  outstanding amount of every member.
\<close>

theorem monthly_dues_unguarded_counterexample:
  "admin_check ex_env (as_member ()) ex_store = Inl forbidden
   \<and> fst (monthly_dues ex_env (as_member ()) ex_store)
       = Response 200 (MessageJson ''Successfully updated outstanding amounts for all users by 500.'')
   \<and> map outstanding_amount (profiles ex_store) = [0, 1000]
   \<and> map outstanding_amount (profiles (snd (monthly_dues ex_env (as_member ()) ex_store)))
       = [0, 1500]"
  by (simp add: ex_member_check)
     (simp add: monthly_dues_def as_member_def ex_env_def ex_store_def ex_admin_def ex_member_def
        increment_outstanding_amounts_def)

text \<open>
  Claim C5, amended. In the handlers that have the inline admin check (here
  admin-disburse-loan, process-loan-request, process-payment-proof,
  admin-bulk-add-contributions and admin-create-loan), for every request that is not a
  CORS preflight and whose caller is authenticated with no stored role \<open>admin\<close>,
  whatever the body: the answer is the fixed payload
  \<open>{error: 'You must be an admin to perform this action.'}\<close> with status 403, and the
  store is what it was.
\<close>

theorem admin_guard:
  assumes "m \<noteq> ''OPTIONS''" "h \<noteq> []" "getUser e (remove_first ''Bearer '' h) = Some u"
    and "\<forall>p\<in>set (profiles db). profile_id p = u \<longrightarrow> role p \<noteq> ''admin''"
  shows "admin_disburse_loan e \<lparr>http_method = m, authorization = Some h, body = b1\<rparr> db
           = (forbidden, db)
    \<and> process_loan_request e \<lparr>http_method = m, authorization = Some h, body = b2\<rparr> db
           = (forbidden, db)
    \<and> process_payment_proof e \<lparr>http_method = m, authorization = Some h, body = b3\<rparr> db
           = (forbidden, db)
    \<and> admin_bulk_add_contributions e \<lparr>http_method = m, authorization = Some h, body = b4\<rparr> db
           = (forbidden, db)
    \<and> admin_create_loan e \<lparr>http_method = m, authorization = Some h, body = b5\<rparr> db
           = (forbidden, db)"
  using assms(1)
  by (simp add: admin_check_forbidden[OF assms(2,3,4)] admin_disburse_loan_def process_loan_request_def process_payment_proof_def
      admin_bulk_add_contributions_def admin_create_loan_def)

theorem admin_guard_witness:
  "admin_disburse_loan ex_env (as_member \<lparr>d_loanId = Some ''loan-1''\<rparr>) ex_store
           = (forbidden, ex_store)
    \<and> process_loan_request ex_env (as_member ex_approve_loan) ex_store = (forbidden, ex_store)
    \<and> process_payment_proof ex_env (as_member ex_approve_proof) ex_store = (forbidden, ex_store)
    \<and> admin_bulk_add_contributions ex_env
         (as_member (ex_bulk 0 2)) ex_store = (forbidden, ex_store)
    \<and> admin_create_loan ex_env
         (as_member (ex_create ''closed'')) ex_store
           = (forbidden, ex_store)"
proof -
  have 1: "''POST'' \<noteq> ''OPTIONS''" "''Bearer member-token'' \<noteq> []" by simp_all
  have 2: "getUser ex_env (remove_first ''Bearer '' ''Bearer member-token'') = Some ''member-1''"
    by (simp add: ex_env_def)
  have 3: "\<forall>p\<in>set (profiles ex_store). profile_id p = ''member-1'' \<longrightarrow> role p \<noteq> ''admin''"
    by (simp add: ex_store_def ex_admin_def ex_member_def)
  show ?thesis
    using admin_guard[OF 1 2 3] by (simp add: as_member_def)
qed

subsection \<open>Bulk contribution backfill\<close>

lemma month_index_month_start [simp]: "month_index (month_start i) = i"
  by (simp add: month_index_def month_start_def)

lemma js_date_month_start:
  "js_date y m = Some d \<Longrightarrow> d = month_start (month_index d) \<and> in_time_range d"
  by (auto simp: js_date_def Let_def month_start_def month_index_def split: if_splits)

lemma date_le_month_start [simp]: "date_le (month_start i) (month_start j) \<longleftrightarrow> i \<le> j"
proof -
  have "i = 12 * (i div 12) + i mod 12" "j = 12 * (j div 12) + j mod 12" by simp_all
  moreover have "0 \<le> i mod 12" "i mod 12 < 12" "0 \<le> j mod 12" "j mod 12 < 12" by simp_all
  ultimately show ?thesis
    unfolding date_le_def month_start_def by (simp; linarith)
qed

lemma in_range_lower: "in_time_range (month_start i) \<Longrightarrow> - 271821 * 12 + 4 \<le> i"
proof -
  assume a: "in_time_range (month_start i)"
  have "i = 12 * (i div 12) + i mod 12" by simp
  moreover have "0 \<le> i mod 12" "i mod 12 < 12" by simp_all
  ultimately show ?thesis
    using a unfolding in_time_range_def date_le_def month_start_def min_date_def
    by (simp; linarith)
qed

lemma addMonths_month_start:
  assumes "in_time_range (month_start i)" "(i + 1) div 12 < 275760"
  shows "addMonths (month_start i) 1 = Some (month_start (i + 1))"
    and "in_time_range (month_start (i + 1))"
proof -
  have lo: "- 271821 * 12 + 4 \<le> i" using in_range_lower[OF assms(1)] .
  have d: "- 271821 \<le> (i + 1) div 12" using lo by linarith
  have dm: "28 \<le> days_in_month y mm" "days_in_month y mm \<le> 31" for y mm
    by (simp_all add: days_in_month_def)
  have dec: "i + 1 = 12 * ((i + 1) div 12) + (i + 1) mod 12" by simp
  have m: "(i + 1) div 12 = - 271821 \<Longrightarrow> 4 \<le> (i + 1) mod 12"
    using lo dec by linarith
  show "addMonths (month_start i) 1 = Some (month_start (i + 1))"
    using assms(2) d m dm[of "(i + 1) div 12" "(i + 1) mod 12"]
    by (auto simp: addMonths_def Let_def month_start_def in_time_range_def date_le_def
        min_date_def max_date_def)
  show "in_time_range (month_start (i + 1))"
    using assms(2) d m
    by (auto simp: month_start_def in_time_range_def date_le_def min_date_def max_date_def)
qed

lemma addMonths_month_start_cases:
  "addMonths (month_start i) 1 = None \<or> addMonths (month_start i) 1 = Some (month_start (i + 1))"
  using days_in_month_def
  by (auto simp: addMonths_def Let_def month_start_def days_in_month_def)

lemma bulk_loop_done:
  "bulk_loop e u nm None en n db = (Inr n, db)"
  "j < i \<Longrightarrow> bulk_loop e u nm (Some (month_start i)) (Some (month_start j)) n db = (Inr n, db)"
  by (simp_all add: bulk_loop.simps)

lemma bulk_loop_range:
  assumes "bulk_loop e u nm (Some (month_start i)) (Some (month_start j)) n db = (Inr n', db')"
    and "in_time_range (month_start i)" "j div 12 < 275760"
  shows "n' = n + nat (j + 1 - i)
    \<and> transactions db' = transactions db @ map (\<lambda>k. contribution_row u nm (month_start k)) [i..j]"
  using assms
proof (induction "nat (j + 1 - i)" arbitrary: i n db)
  case 0
  then have "j < i" by simp
  with 0 show ?case by (simp add: bulk_loop_done)
next
  case (Suc k)
  then have le: "i \<le> j" by linarith
  let ?db1 = "contribution_call e u nm (month_start i) db"
  from Suc.prems(1) le have f: "fault e (RpcAdminCreateTransaction (month_start i)) = None"
    by (simp add: bulk_loop.simps[of e u nm "Some (month_start i)"] split: option.splits)
  with Suc.prems(1) le have rec:
    "bulk_loop e u nm (addMonths (month_start i) 1) (Some (month_start j)) (n + 1) ?db1 = (Inr n', db')"
    by (simp add: bulk_loop.simps[of e u nm "Some (month_start i)"])
  have tx: "transactions ?db1 = transactions db @ [contribution_row u nm (month_start i)]"
    by (simp add: contribution_call_def admin_create_transaction_def contribution_row_def)
  have up: "[i..j] = i # [i + 1..j]" using le by (simp add: upto_rec1)
  show ?case
  proof (cases "i = j")
    case True
    have "bulk_loop e u nm (addMonths (month_start i) 1) (Some (month_start j)) (n + 1) ?db1
        = (Inr (n + 1), ?db1)"
      using addMonths_month_start_cases[of i] True by (auto simp: bulk_loop_done)
    with rec have "n' = n + 1" "db' = ?db1" by simp_all
    then show ?thesis using True tx by simp
  next
    case False
    then have lt: "i < j" using le by simp
    then have d: "(i + 1) div 12 < 275760"
      using Suc.prems(3) by (smt (verit) zdiv_mono1)
    have k: "k = nat (j + 1 - (i + 1))" using Suc.hyps(2) by linarith
    from rec addMonths_month_start[OF Suc.prems(2) d]
    have "bulk_loop e u nm (Some (month_start (i + 1))) (Some (month_start j)) (n + 1) ?db1
        = (Inr n', db')" by simp
    from Suc.hyps(1)[OF k this addMonths_month_start(2)[OF Suc.prems(2) d] Suc.prems(3)]
    show ?thesis using tx up lt by (simp add: nat_add_distrib)
  qed
qed

lemma bulk_loop_succeeds:
  "\<forall>d. fault e (RpcAdminCreateTransaction d) = None
     \<Longrightarrow> \<exists>n' db'. bulk_loop e u nm c en n db = (Inr n', db')"
proof (induction e u nm c en n db rule: bulk_loop.induct)
  case (1 e userId userFullName currentDate endDate contributionsAdded db)
  show ?case
  proof (cases "\<exists>c en. currentDate = Some c \<and> endDate = Some en \<and> date_le c en")
    case True
    then obtain c en where c: "currentDate = Some c" "endDate = Some en" "date_le c en"
      by blast
    have f: "fault e (RpcAdminCreateTransaction c) = None"
      using "1.prems" by simp
    from "1.IH"[OF refl c(1) c(2) c(3) f "1.prems"] show ?thesis
      using c f by (subst bulk_loop.simps) simp
  next
    case False
    then show ?thesis
      by (subst bulk_loop.simps) (auto split: option.splits)
  qed
qed

lemma ex_js_date:
  "js_date 2024 0 = Some \<lparr>dt_year = 2024, dt_month = 0, dt_day = 1, dt_ms = 0\<rparr>"
  "js_date 2024 2 = Some \<lparr>dt_year = 2024, dt_month = 2, dt_day = 1, dt_ms = 0\<rparr>"
  "js_date 2024 5 = Some \<lparr>dt_year = 2024, dt_month = 5, dt_day = 1, dt_ms = 0\<rparr>"
  by (simp_all add: js_date_def Let_def in_time_range_def date_le_def min_date_def max_date_def)

lemma ex_upto: "[24288..24290] = [24288, 24289, 24290]"
  by code_simp

lemma ex_bulk_check:
  "select_single ex_env SelectProfileName
     (filter (\<lambda>p. profile_id p = ''member-1'') (profiles ex_store)) = Inr ex_member"
  by (simp add: select_single_def ex_env_def ex_store_def ex_admin_def ex_member_def)

text \<open>
  Claim C6. For every bulk backfill that answers with its success message, the start
  month (as the \<open>Date\<close> the handler builds from the start year and month) not after the
  end month, and the end year before 275760, the last year of JavaScript time: with N
  the number of months of the inclusive range, exactly N rows were added to the
  transactions, all deposits of the fixed amount 500 for the member, dated in order to
  the first day of each month of the range.
\<close>

theorem bulk_backfill_range:
  assumes run: "admin_bulk_add_contributions e req db = (Response 200 (MessageJson m), db')"
    and b: "body req = Some b"
    and fields: "b_userId b = Some userId" "b_startYear b = Some sy" "b_startMonth b = Some sm"
      "b_endYear b = Some ey" "b_endMonth b = Some em"
    and s: "js_date sy sm = Some s" and en: "js_date ey em = Some en"
    and le: "month_index s \<le> month_index en" and yr: "dt_year en < 275760"
  shows "\<exists>new. transactions db' = transactions db @ new
      \<and> length new = nat (month_index en - month_index s + 1)
      \<and> (\<forall>t\<in>set new. tx_type t = ''deposit'' \<and> tx_amount t = 500 \<and> tx_user_id t = Some userId)
      \<and> map tx_created_at new = map month_start [month_index s..month_index en]"
proof -
  from run b fields s en obtain nm n' where
    loop: "bulk_loop e userId nm (Some s) (Some en) 0 db = (Inr n', db')"
    by (auto simp: admin_bulk_add_contributions_def thrown_def dest: admin_check_is_error
        split: if_splits sum.splits option.splits prod.splits)
  have s': "s = month_start (month_index s)" "in_time_range (month_start (month_index s))"
    using js_date_month_start[OF s] by simp_all
  have en': "en = month_start (month_index en)"
    using js_date_month_start[OF en] by simp
  have y: "month_index en div 12 < 275760"
    using yr en' by (metis datetime.select_convs(1) month_start_def)
  from loop have "bulk_loop e userId nm (Some (month_start (month_index s)))
      (Some (month_start (month_index en))) 0 db = (Inr n', db')"
    using s'(1) en' by simp
  from bulk_loop_range[OF this s'(2) y]
  have tx: "transactions db' = transactions db
      @ map (\<lambda>k. contribution_row userId nm (month_start k)) [month_index s..month_index en]"
    by simp
  show ?thesis
  proof (intro exI conjI)
    show "transactions db' = transactions db
      @ map (\<lambda>k. contribution_row userId nm (month_start k)) [month_index s..month_index en]"
      by (rule tx)
  qed (auto simp: contribution_row_def comp_def)
qed

theorem bulk_backfill_range_witness:
  "length (transactions
      (snd (admin_bulk_add_contributions ex_env (as_admin (ex_bulk 0 2)) ex_store))) = 3
   \<and> map tx_created_at (transactions
      (snd (admin_bulk_add_contributions ex_env (as_admin (ex_bulk 0 2)) ex_store)))
     = [\<lparr>dt_year = 2024, dt_month = 0, dt_day = 1, dt_ms = 0\<rparr>,
        \<lparr>dt_year = 2024, dt_month = 1, dt_day = 1, dt_ms = 0\<rparr>,
        \<lparr>dt_year = 2024, dt_month = 2, dt_day = 1, dt_ms = 0\<rparr>]"
proof -
  let ?run = "admin_bulk_add_contributions ex_env (as_admin (ex_bulk 0 2)) ex_store"
  have "\<forall>d. fault ex_env (RpcAdminCreateTransaction d) = None"
    by (simp add: ex_env_def)
  from bulk_loop_succeeds[OF this] obtain n' db' where
    "bulk_loop ex_env ''member-1'' (full_name (first_name ex_member) (last_name ex_member))
       (js_date 2024 0) (js_date 2024 2) 0 ex_store = (Inr n', db')"
    by blast
  then have run: "?run = (Response 200 (MessageJson (''Successfully added ''
       @ nat_to_string n' @ '' contributions.'')), snd ?run)"
    by (simp add: admin_bulk_add_contributions_def ex_admin_check)
       (simp add: as_admin_def ex_bulk_def ex_bulk_check)
  have b: "body (as_admin (ex_bulk 0 2)) = Some (ex_bulk 0 2)"
    by (simp add: as_admin_def)
  have f: "b_userId (ex_bulk 0 2) = Some ''member-1''" "b_startYear (ex_bulk 0 2) = Some 2024"
    "b_startMonth (ex_bulk 0 2) = Some 0" "b_endYear (ex_bulk 0 2) = Some 2024"
    "b_endMonth (ex_bulk 0 2) = Some 2"
    by (simp_all add: ex_bulk_def)
  have "\<exists>new. transactions (snd ?run) = transactions ex_store @ new
      \<and> length new = nat (month_index \<lparr>dt_year = 2024, dt_month = 2, dt_day = 1, dt_ms = 0\<rparr>
            - month_index \<lparr>dt_year = 2024, dt_month = 0, dt_day = 1, dt_ms = 0\<rparr> + 1)
      \<and> (\<forall>t\<in>set new. tx_type t = ''deposit'' \<and> tx_amount t = 500
            \<and> tx_user_id t = Some ''member-1'')
      \<and> map tx_created_at new = map month_start
            [month_index \<lparr>dt_year = 2024, dt_month = 0, dt_day = 1, dt_ms = 0\<rparr>
             ..month_index \<lparr>dt_year = 2024, dt_month = 2, dt_day = 1, dt_ms = 0\<rparr>]"
    by (rule bulk_backfill_range[OF run b f ex_js_date(1) ex_js_date(2)])
       (simp_all add: month_index_def)
  then show ?thesis
    by (auto simp: ex_store_def month_index_def ex_upto month_start_def)
qed

text \<open>
  Claim C10. When the start month (as the \<open>Date\<close> the handler builds) is strictly after
  the end month, a bulk backfill (not a CORS preflight) by an admin for a member whose
  profile is found writes nothing and answers with the success message for 0
  contributions.
\<close>

theorem bulk_backfill_empty_range:
  assumes "http_method req \<noteq> ''OPTIONS''" "admin_check e req db = Inr admin"
    and "body req = Some b"
    and "b_userId b = Some userId" "b_startYear b = Some sy" "b_startMonth b = Some sm"
      "b_endYear b = Some ey" "b_endMonth b = Some em"
    and "select_single e SelectProfileName
           (filter (\<lambda>p. profile_id p = userId) (profiles db)) = Inr p"
    and s: "js_date sy sm = Some s" and en: "js_date ey em = Some en"
    and lt: "month_index en < month_index s"
  shows "admin_bulk_add_contributions e req db
    = (Response 200 (MessageJson ''Successfully added 0 contributions.''), db)"
proof -
  have "bulk_loop e userId nm (Some s) (Some en) 0 db = (Inr 0, db)" for nm
    using js_date_month_start[OF s] js_date_month_start[OF en] lt
      bulk_loop_done(2)[of "month_index en" "month_index s" e userId nm 0 db]
    by simp
  then show ?thesis
    using assms by (simp add: admin_bulk_add_contributions_def nat_to_string.simps)
qed

theorem bulk_backfill_empty_range_witness:
  "admin_bulk_add_contributions ex_env (as_admin (ex_bulk 5 2)) ex_store
     = (Response 200 (MessageJson ''Successfully added 0 contributions.''), ex_store)"
proof -
  have m: "http_method (as_admin (ex_bulk 5 2)) \<noteq> ''OPTIONS''"
    and b: "body (as_admin (ex_bulk 5 2)) = Some (ex_bulk 5 2)"
    by (simp_all add: as_admin_def)
  have f: "b_userId (ex_bulk 5 2) = Some ''member-1''" "b_startYear (ex_bulk 5 2) = Some 2024"
    "b_startMonth (ex_bulk 5 2) = Some 5" "b_endYear (ex_bulk 5 2) = Some 2024"
    "b_endMonth (ex_bulk 5 2) = Some 2"
    by (simp_all add: ex_bulk_def)
  have lt: "month_index \<lparr>dt_year = 2024, dt_month = 2, dt_day = 1, dt_ms = 0\<rparr>
      < month_index \<lparr>dt_year = 2024, dt_month = 5, dt_day = 1, dt_ms = 0\<rparr>"
    by (simp add: month_index_def)
  show ?thesis
    by (rule bulk_backfill_empty_range[OF m ex_admin_check b f ex_bulk_check
          ex_js_date(3) ex_js_date(2) lt])
qed

subsection \<open>Historical loan create\<close>

text \<open>
  Claim C7 says that admin-create-loan inserts a loan in any status. The handler accepts
  four: \<open>pending\<close>, \<open>in-process\<close>, \<open>rejected\<close> and \<open>closed\<close>. A request
  for the status \<open>approved\<close>, every other field in order, is answered with status 400
  and nothing is written.
\<close>

theorem historical_create_approved_counterexample:
  "admin_create_loan ex_env (as_admin (ex_create ''approved'')) ex_store
     = (Response 400 (ErrorJson ''Missing or invalid required fields.''), ex_store)"
  by (simp add: admin_create_loan_def ex_admin_check)
     (simp add: as_admin_def ex_create_def falsy_def or_empty_def)

lemma create_loan_financials_Inr:
  assumes "create_loan_financials e userId amount name issueDate db = Inr db2"
  shows "\<exists>tier. filter (\<lambda>t. tier_amount t = amount) (loan_tiers db) = [tier]
    \<and> profiles db2 = map (\<lambda>p. if profile_id p = userId
          then p\<lparr>outstanding_amount := outstanding_amount p + (amount + fine tier)\<rparr>
          else p) (profiles db)
    \<and> transactions db2 = transactions db
          @ [create_personal e userId amount (amount + fine tier) name issueDate,
             create_public amount name issueDate]
    \<and> loan_requests db2 = loan_requests db"
  using assms
  by (auto simp: create_loan_financials_def select_single_def Let_def insert_transaction_def
      increment_user_outstanding_amount_def
      split: sum.splits option.splits list.splits if_splits)

lemma admin_create_loan_success:
  assumes run: "admin_create_loan e req db = (Response 200 (LoanCreatedJson m ln), db')"
    and b: "body req = Some b"
  shows "\<exists>admin amount issueDate gname uname.
      c_amount b = Some amount \<and> c_issueDate b = Some issueDate \<and> \<not> falsy (c_userId b)
    \<and> or_empty (c_status b) \<in> set [''pending'', ''in-process'', ''rejected'', ''closed'']
    \<and> ln = new_loan e admin b (or_empty (c_userId b)) amount (or_empty (c_status b)) issueDate gname
    \<and> (if or_empty (c_status b) = ''in-process'' \<or> or_empty (c_status b) = ''closed''
        then create_loan_financials e (or_empty (c_userId b)) amount uname issueDate
               (db\<lparr>loan_requests := loan_requests db @ [ln]\<rparr>) = Inr db'
        else db' = db\<lparr>loan_requests := loan_requests db @ [ln]\<rparr>)"
  using run b
  by (auto simp: admin_create_loan_def thrown_def Let_def dest: admin_check_is_error
      split: if_splits sum.splits option.splits prod.splits)

text \<open>
  What a successful historical create has done, and that a status outside the four is
  refused before anything is written.
\<close>


lemma historical_create_effects:
  assumes run: "admin_create_loan e req db = (Response 200 (LoanCreatedJson m ln), db')"
    and b: "body req = Some b"
  shows "or_empty (c_status b) \<in> set [''pending'', ''in-process'', ''rejected'', ''closed'']
    \<and> loan_requests db' = loan_requests db @ [ln]
    \<and> loan_status ln = or_empty (c_status b)
    \<and> c_userId b = Some (loan_user_id ln) \<and> c_amount b = Some (loan_amount ln)
    \<and> c_issueDate b = Some (loan_created_at ln)
    \<and> (or_empty (c_status b) \<in> set [''in-process'', ''closed''] \<longrightarrow>
         (\<exists>tier t1 t2. filter (\<lambda>t. tier_amount t = loan_amount ln) (loan_tiers db) = [tier]
           \<and> profiles db' = map (\<lambda>p. if profile_id p = loan_user_id ln
                 then p\<lparr>outstanding_amount := outstanding_amount p + (loan_amount ln + fine tier)\<rparr>
                 else p) (profiles db)
           \<and> transactions db' = transactions db @ [t1, t2]
           \<and> tx_type t1 = ''withdrawal'' \<and> tx_amount t1 = loan_amount ln
           \<and> tx_user_id t1 = Some (loan_user_id ln) \<and> tx_created_at t1 = loan_created_at ln
           \<and> tx_type t2 = ''withdrawal'' \<and> tx_amount t2 = loan_amount ln
           \<and> tx_user_id t2 = None \<and> tx_created_at t2 = loan_created_at ln))
    \<and> (or_empty (c_status b) \<notin> set [''in-process'', ''closed''] \<longrightarrow>
         profiles db' = profiles db \<and> transactions db' = transactions db)"
proof -
  from admin_create_loan_success[OF run b] obtain admin amount issueDate gname uname where
    f: "c_amount b = Some amount" "c_issueDate b = Some issueDate" "\<not> falsy (c_userId b)"
      "or_empty (c_status b) \<in> set [''pending'', ''in-process'', ''rejected'', ''closed'']"
    and ln: "ln = new_loan e admin b (or_empty (c_userId b)) amount (or_empty (c_status b))
                issueDate gname"
    and fin: "if or_empty (c_status b) = ''in-process'' \<or> or_empty (c_status b) = ''closed''
        then create_loan_financials e (or_empty (c_userId b)) amount uname issueDate
               (db\<lparr>loan_requests := loan_requests db @ [ln]\<rparr>) = Inr db'
        else db' = db\<lparr>loan_requests := loan_requests db @ [ln]\<rparr>"
    by blast
  have u: "c_userId b = Some (or_empty (c_userId b))"
    using f(3) by (auto simp: falsy_def or_empty_def split: option.splits)
  have sel: "loan_user_id ln = or_empty (c_userId b)" "loan_amount ln = amount"
    "loan_created_at ln = issueDate" "loan_status ln = or_empty (c_status b)"
    by (simp_all add: ln new_loan_def)
  show ?thesis
  proof (cases "or_empty (c_status b) = ''in-process'' \<or> or_empty (c_status b) = ''closed''")
    case True
    with fin have "create_loan_financials e (or_empty (c_userId b)) amount uname issueDate
               (db\<lparr>loan_requests := loan_requests db @ [ln]\<rparr>) = Inr db'" by simp
    from create_loan_financials_Inr[OF this] obtain tier where
      t: "filter (\<lambda>t. tier_amount t = amount) (loan_tiers db) = [tier]"
      "profiles db' = map (\<lambda>p. if profile_id p = or_empty (c_userId b)
          then p\<lparr>outstanding_amount := outstanding_amount p + (amount + fine tier)\<rparr>
          else p) (profiles db)"
      "transactions db' = transactions db
          @ [create_personal e (or_empty (c_userId b)) amount (amount + fine tier) uname issueDate,
             create_public amount uname issueDate]"
      "loan_requests db' = loan_requests db @ [ln]"
      by auto
    have "\<exists>tier t1 t2. filter (\<lambda>t. tier_amount t = loan_amount ln) (loan_tiers db) = [tier]
           \<and> profiles db' = map (\<lambda>p. if profile_id p = loan_user_id ln
                 then p\<lparr>outstanding_amount := outstanding_amount p + (loan_amount ln + fine tier)\<rparr>
                 else p) (profiles db)
           \<and> transactions db' = transactions db @ [t1, t2]
           \<and> tx_type t1 = ''withdrawal'' \<and> tx_amount t1 = loan_amount ln
           \<and> tx_user_id t1 = Some (loan_user_id ln) \<and> tx_created_at t1 = loan_created_at ln
           \<and> tx_type t2 = ''withdrawal'' \<and> tx_amount t2 = loan_amount ln
           \<and> tx_user_id t2 = None \<and> tx_created_at t2 = loan_created_at ln"
      apply (rule exI[of _ tier])
      apply (rule exI[of _ "create_personal e (or_empty (c_userId b)) amount (amount + fine tier)
                              uname issueDate"])
      apply (rule exI[of _ "create_public amount uname issueDate"])
      using t by (simp add: sel create_personal_def create_public_def)
    then show ?thesis
      using True f u sel t(4) by simp
  next
    case False
    with fin have "db' = db\<lparr>loan_requests := loan_requests db @ [ln]\<rparr>" by simp
    then show ?thesis
      using False f u sel by simp
  qed
qed

lemma ex_create_closed_run:
  "fst (admin_create_loan ex_env (as_admin (ex_create ''closed'')) ex_store)
     = Response 200 (LoanCreatedJson ''Loan created successfully''
         (new_loan ex_env ''admin-1'' (ex_create ''closed'') ''member-1'' 5000 ''closed''
            \<lparr>dt_year = 2023, dt_month = 5, dt_day = 1, dt_ms = 0\<rparr> ''Asha''))"
  by (simp add: admin_create_loan_def ex_admin_check)
     (simp add: as_admin_def ex_create_def falsy_def or_empty_def ex_env_def ex_store_def
        ex_admin_def ex_member_def ex_tier_def Let_def create_loan_financials_def
        select_single_def profile_name_def full_name_def trim_def is_space_def new_loan_def)

lemma historical_create_refused:
  assumes "http_method req \<noteq> ''OPTIONS''" "admin_check e req db = Inr admin"
    and "body req = Some b"
    and "or_empty (c_status b) \<notin> set [''pending'', ''in-process'', ''rejected'', ''closed'']"
  shows "admin_create_loan e req db
    = (Response 400 (ErrorJson ''Missing or invalid required fields.''), db)"
  using assms
  by (simp add: admin_create_loan_def split: option.splits)

text \<open>
  Claim C7, amended. For every request of an admin to admin-create-loan that is not a
  CORS preflight and has a body: a status other than \<open>pending\<close>, \<open>in-process\<close>,
  \<open>rejected\<close> and \<open>closed\<close> is refused with status 400 and nothing is written. And
  when the handler answers with its success message, the status asked for is one of
  these four, and one loan with that status, the member, the amount and the issue date
  of the request has been added. For \<open>in-process\<close> and \<open>closed\<close> the side effects
  of a disbursement were applied: the outstanding amount of the member has grown by the
  amount plus the fine of the tier of that amount, and exactly two rows were added to
  the transactions, withdrawals of the amount dated to the issue date, the first owned
  by the member and the second by nobody. For the other two statuses no balance and no
  transaction has changed.
\<close>

theorem historical_create:
  "(http_method req \<noteq> ''OPTIONS'' \<and> admin_check e req db = Inr admin \<and> body req = Some b
      \<and> or_empty (c_status b) \<notin> set [''pending'', ''in-process'', ''rejected'', ''closed'']
     \<longrightarrow> admin_create_loan e req db
           = (Response 400 (ErrorJson ''Missing or invalid required fields.''), db))
   \<and> (admin_create_loan e req db = (Response 200 (LoanCreatedJson m ln), db')
        \<and> body req = Some b
     \<longrightarrow> or_empty (c_status b) \<in> set [''pending'', ''in-process'', ''rejected'', ''closed'']
       \<and> loan_requests db' = loan_requests db @ [ln]
       \<and> loan_status ln = or_empty (c_status b)
       \<and> c_userId b = Some (loan_user_id ln) \<and> c_amount b = Some (loan_amount ln)
       \<and> c_issueDate b = Some (loan_created_at ln)
       \<and> (or_empty (c_status b) \<in> set [''in-process'', ''closed''] \<longrightarrow>
            (\<exists>tier t1 t2. filter (\<lambda>t. tier_amount t = loan_amount ln) (loan_tiers db) = [tier]
              \<and> profiles db' = map (\<lambda>p. if profile_id p = loan_user_id ln
                    then p\<lparr>outstanding_amount := outstanding_amount p + (loan_amount ln + fine tier)\<rparr>
                    else p) (profiles db)
              \<and> transactions db' = transactions db @ [t1, t2]
              \<and> tx_type t1 = ''withdrawal'' \<and> tx_amount t1 = loan_amount ln
              \<and> tx_user_id t1 = Some (loan_user_id ln) \<and> tx_created_at t1 = loan_created_at ln
              \<and> tx_type t2 = ''withdrawal'' \<and> tx_amount t2 = loan_amount ln
              \<and> tx_user_id t2 = None \<and> tx_created_at t2 = loan_created_at ln))
       \<and> (or_empty (c_status b) \<notin> set [''in-process'', ''closed''] \<longrightarrow>
            profiles db' = profiles db \<and> transactions db' = transactions db))"
proof (rule conjI)
  show "http_method req \<noteq> ''OPTIONS'' \<and> admin_check e req db = Inr admin \<and> body req = Some b
      \<and> or_empty (c_status b) \<notin> set [''pending'', ''in-process'', ''rejected'', ''closed'']
     \<longrightarrow> admin_create_loan e req db
           = (Response 400 (ErrorJson ''Missing or invalid required fields.''), db)"
    using historical_create_refused[of req e db admin b] by blast
  show "admin_create_loan e req db = (Response 200 (LoanCreatedJson m ln), db')
        \<and> body req = Some b
     \<longrightarrow> or_empty (c_status b) \<in> set [''pending'', ''in-process'', ''rejected'', ''closed'']
       \<and> loan_requests db' = loan_requests db @ [ln]
       \<and> loan_status ln = or_empty (c_status b)
       \<and> c_userId b = Some (loan_user_id ln) \<and> c_amount b = Some (loan_amount ln)
       \<and> c_issueDate b = Some (loan_created_at ln)
       \<and> (or_empty (c_status b) \<in> set [''in-process'', ''closed''] \<longrightarrow>
            (\<exists>tier t1 t2. filter (\<lambda>t. tier_amount t = loan_amount ln) (loan_tiers db) = [tier]
              \<and> profiles db' = map (\<lambda>p. if profile_id p = loan_user_id ln
                    then p\<lparr>outstanding_amount := outstanding_amount p + (loan_amount ln + fine tier)\<rparr>
                    else p) (profiles db)
              \<and> transactions db' = transactions db @ [t1, t2]
              \<and> tx_type t1 = ''withdrawal'' \<and> tx_amount t1 = loan_amount ln
              \<and> tx_user_id t1 = Some (loan_user_id ln) \<and> tx_created_at t1 = loan_created_at ln
              \<and> tx_type t2 = ''withdrawal'' \<and> tx_amount t2 = loan_amount ln
              \<and> tx_user_id t2 = None \<and> tx_created_at t2 = loan_created_at ln))
       \<and> (or_empty (c_status b) \<notin> set [''in-process'', ''closed''] \<longrightarrow>
            profiles db' = profiles db \<and> transactions db' = transactions db)"
    using historical_create_effects[of e req db m ln db' b] by blast
qed

theorem historical_create_witness:
  "admin_create_loan ex_env (as_admin (ex_create ''disbursed'')) ex_store
     = (Response 400 (ErrorJson ''Missing or invalid required fields.''), ex_store)
   \<and> map loan_status (loan_requests
       (snd (admin_create_loan ex_env (as_admin (ex_create ''closed'')) ex_store)))
     = [''approved'', ''pending'', ''closed'']
   \<and> map outstanding_amount (profiles
       (snd (admin_create_loan ex_env (as_admin (ex_create ''closed'')) ex_store))) = [0, 6250]
   \<and> map tx_created_at (transactions
       (snd (admin_create_loan ex_env (as_admin (ex_create ''closed'')) ex_store)))
     = [\<lparr>dt_year = 2023, dt_month = 5, dt_day = 1, dt_ms = 0\<rparr>,
        \<lparr>dt_year = 2023, dt_month = 5, dt_day = 1, dt_ms = 0\<rparr>]"
proof -
  define ln where "ln = new_loan ex_env ''admin-1'' (ex_create ''closed'') ''member-1'' 5000
            ''closed'' \<lparr>dt_year = 2023, dt_month = 5, dt_day = 1, dt_ms = 0\<rparr> ''Asha''"
  define db' where "db' = snd (admin_create_loan ex_env (as_admin (ex_create ''closed'')) ex_store)"
  have run: "admin_create_loan ex_env (as_admin (ex_create ''closed'')) ex_store
      = (Response 200 (LoanCreatedJson ''Loan created successfully'' ln), db')"
    unfolding ln_def db'_def using ex_create_closed_run by (metis prod.collapse)
  have b: "body (as_admin (ex_create ''closed'')) = Some (ex_create ''closed'')"
    by (simp add: as_admin_def)
  have st: "or_empty (c_status (ex_create ''closed'')) = ''closed''"
    by (simp add: ex_create_def or_empty_def)
  have ln: "loan_amount ln = 5000" "loan_user_id ln = ''member-1''"
    "loan_created_at ln = \<lparr>dt_year = 2023, dt_month = 5, dt_day = 1, dt_ms = 0\<rparr>"
    "loan_status ln = ''closed''"
    by (simp_all add: ln_def new_loan_def)
  have tier: "filter (\<lambda>t. tier_amount t = 5000) (loan_tiers ex_store) = [ex_tier]"
    by (simp add: ex_store_def ex_tier_def)
  have m: "http_method (as_admin (ex_create ''disbursed'')) \<noteq> ''OPTIONS''"
    and b2: "body (as_admin (ex_create ''disbursed'')) = Some (ex_create ''disbursed'')"
    by (simp_all add: as_admin_def)
  have st2: "or_empty (c_status (ex_create ''disbursed''))
      \<notin> set [''pending'', ''in-process'', ''rejected'', ''closed'']"
    by (simp add: ex_create_def or_empty_def)
  have 0: "admin_create_loan ex_env (as_admin (ex_create ''disbursed'')) ex_store
     = (Response 400 (ErrorJson ''Missing or invalid required fields.''), ex_store)"
    using historical_create[where req = "as_admin (ex_create ''disbursed'')" and e = ex_env
        and db = ex_store and admin = "''admin-1''" and b = "ex_create ''disbursed''"]
      m b2 st2 ex_admin_check[of "ex_create ''disbursed''"]
    by blast
  have E: "or_empty (c_status (ex_create ''closed''))
          \<in> set [''pending'', ''in-process'', ''rejected'', ''closed'']
       \<and> loan_requests db' = loan_requests ex_store @ [ln]
       \<and> loan_status ln = or_empty (c_status (ex_create ''closed''))
       \<and> c_userId (ex_create ''closed'') = Some (loan_user_id ln)
       \<and> c_amount (ex_create ''closed'') = Some (loan_amount ln)
       \<and> c_issueDate (ex_create ''closed'') = Some (loan_created_at ln)
       \<and> (or_empty (c_status (ex_create ''closed'')) \<in> set [''in-process'', ''closed''] \<longrightarrow>
            (\<exists>tier t1 t2. filter (\<lambda>t. tier_amount t = loan_amount ln) (loan_tiers ex_store) = [tier]
              \<and> profiles db' = map (\<lambda>p. if profile_id p = loan_user_id ln
                    then p\<lparr>outstanding_amount := outstanding_amount p + (loan_amount ln + fine tier)\<rparr>
                    else p) (profiles ex_store)
              \<and> transactions db' = transactions ex_store @ [t1, t2]
              \<and> tx_type t1 = ''withdrawal'' \<and> tx_amount t1 = loan_amount ln
              \<and> tx_user_id t1 = Some (loan_user_id ln) \<and> tx_created_at t1 = loan_created_at ln
              \<and> tx_type t2 = ''withdrawal'' \<and> tx_amount t2 = loan_amount ln
              \<and> tx_user_id t2 = None \<and> tx_created_at t2 = loan_created_at ln))
       \<and> (or_empty (c_status (ex_create ''closed'')) \<notin> set [''in-process'', ''closed''] \<longrightarrow>
            profiles db' = profiles ex_store \<and> transactions db' = transactions ex_store)"
    using historical_create[where req = "as_admin (ex_create ''closed'')" and e = ex_env
        and db = ex_store and b = "ex_create ''closed''" and m = "''Loan created successfully''"
        and ln = ln and db' = db'] run b
    by blast
  note E' = E[unfolded st ln]
  from E' have 1: "loan_requests db' = loan_requests ex_store @ [ln]" by simp
  from E' tier obtain t1 t2 where
    2: "profiles db' = map (\<lambda>p. if profile_id p = ''member-1''
          then p\<lparr>outstanding_amount := outstanding_amount p + (5000 + fine ex_tier)\<rparr>
          else p) (profiles ex_store)"
    and 3: "transactions db' = transactions ex_store @ [t1, t2]"
      "tx_created_at t1 = \<lparr>dt_year = 2023, dt_month = 5, dt_day = 1, dt_ms = 0\<rparr>"
      "tx_created_at t2 = \<lparr>dt_year = 2023, dt_month = 5, dt_day = 1, dt_ms = 0\<rparr>"
    by auto
  have effects: "map loan_status (loan_requests db') = [''approved'', ''pending'', ''closed'']
      \<and> map outstanding_amount (profiles db') = [0, 6250]
      \<and> map tx_created_at (transactions db')
        = [\<lparr>dt_year = 2023, dt_month = 5, dt_day = 1, dt_ms = 0\<rparr>,
           \<lparr>dt_year = 2023, dt_month = 5, dt_day = 1, dt_ms = 0\<rparr>]"
    by (simp add: 1 2 3 ln ex_store_def ex_loan_def ex_admin_def ex_member_def ex_tier_def)
  show ?thesis
    using 0 effects unfolding db'_def by blast
qed

subsection \<open>Submitting a payment proof\<close>

lemma ex_date_now: "int_to_string 1710028800000 = ''1710028800000''"
  by (simp add: int_to_string_def nat_to_string.simps)

lemma ex_contribution_month:
  "contribution_month_of ''2024'' ''3'' = Some \<lparr>dt_year = 2024, dt_month = 2, dt_day = 1, dt_ms = 0\<rparr>"
  by (simp add: contribution_month_of_def js_parseInt_def parse_digits_def is_space_def
      is_digit_def parseInt_def js_date_def Let_def in_time_range_def date_le_def
      min_date_def max_date_def)

lemma ex_member_profile:
  "fault e SelectProfileName = None \<Longrightarrow>
   select_single e SelectProfileName
     (filter (\<lambda>p. profile_id p = ''member-1'') (profiles ex_store)) = Inr ex_member"
  by (simp add: select_single_def ex_store_def ex_admin_def ex_member_def)

text \<open>
  Claim C9 says that a submission whose insert fails leaves no orphaned stored object.
  The handler tries to remove the uploaded file and does not look at the result of that
  call: when the storage fails the removal too, the submission answers with the insert
  error and the uploaded file stays in the storage, with no payment_proofs row for it.
\<close>

theorem orphan_left_counterexample:
  "submit_payment_proof ex_env_insert_and_remove_fail (as_member ex_form) ex_store
     = (Response 500 (ErrorJson ''Database insert failed: duplicate key''),
        ex_store\<lparr>storage_objects :=
          [(''member-1-1706745600000.png'', ''image''),
           (''member-1-1710028800000.png'', ''scan'')]\<rparr>)"
  by (simp add: submit_payment_proof_def as_member_def ex_env_insert_and_remove_fail_def
      ex_env_def ex_form_def falsy_def or_empty_def ex_member_profile ex_date_now file_ext_def
      ex_contribution_month Let_def fire_and_forget_def storage_upload_def thrown_def)
     (simp add: ex_store_def)

text \<open>
  Claim C9, amended. When a member's submission (not a CORS preflight) gets as far as the
  upload, the upload succeeds (the store serves it and the path is new), the
  contribution month is a valid date, and the insert of the payment_proofs row fails:
  the handler has stored the file under the path, then calls the removal of exactly that
  path and answers with \<open>Database insert failed\<close>. When the storage serves the
  removal, the store, its objects included, is what it was before the submission and
  the path is not stored; when the storage fails it, the uploaded file stays.
\<close>

theorem insert_failure_cleanup:
  assumes "http_method req \<noteq> ''OPTIONS''"
    and "authorization req = Some h" "h \<noteq> []"
    and "getUser e (remove_first ''Bearer '' h) = Some userId"
    and "select_single e SelectProfileName
           (filter (\<lambda>p. profile_id p = userId) (profiles db)) = Inr profile"
    and "body req = Some form" "s_proof form = Some file"
    and "\<not> falsy (s_year form)" "\<not> falsy (s_month form)"
    and path: "path = userId @ ''-'' @ int_to_string (date_now e) @ ''.'' @ file_ext (file_name file)"
    and upload: "fault e StorageUpload = None" "path \<notin> fst ` set (storage_objects db)"
    and month: "contribution_month_of (or_empty (s_year form)) (or_empty (s_month form)) = Some cm"
    and insert: "fault e InsertPaymentProof = Some msg"
  shows "submit_payment_proof e req db
      = (thrown (''Database insert failed: '' @ msg),
         fire_and_forget e StorageRemove (storage_remove path)
           (storage_upload path (file_content file) db))
    \<and> storage_objects (storage_upload path (file_content file) db)
        = storage_objects db @ [(path, file_content file)]
    \<and> (fault e StorageRemove = None \<longrightarrow>
          snd (submit_payment_proof e req db) = db
          \<and> path \<notin> fst ` set (storage_objects (snd (submit_payment_proof e req db))))
    \<and> (fault e StorageRemove \<noteq> None \<longrightarrow>
          storage_objects (snd (submit_payment_proof e req db))
            = storage_objects db @ [(path, file_content file)])"
proof -
  have run: "submit_payment_proof e req db
      = (thrown (''Database insert failed: '' @ msg),
         fire_and_forget e StorageRemove (storage_remove path)
           (storage_upload path (file_content file) db))"
    using assms
    by (simp add: submit_payment_proof_def falsy_def or_empty_def Let_def)
  have "filter (\<lambda>obj. fst obj \<noteq> path) (storage_objects db) = storage_objects db"
    using upload(2) by (auto simp: filter_id_conv image_iff)
  then have restored: "storage_remove path (storage_upload path (file_content file) db) = db"
    by (simp add: storage_remove_def storage_upload_def)
  have up: "storage_objects (storage_upload path (file_content file) db)
      = storage_objects db @ [(path, file_content file)]"
    by (simp add: storage_upload_def)
  have served: "fault e StorageRemove = None \<Longrightarrow> snd (submit_payment_proof e req db) = db"
    by (simp add: run restored fire_and_forget_def)
  have failed: "fault e StorageRemove \<noteq> None \<Longrightarrow>
      storage_objects (snd (submit_payment_proof e req db))
        = storage_objects db @ [(path, file_content file)]"
    by (auto simp: run up fire_and_forget_def)
  show ?thesis
    using run up served failed upload(2) by simp
qed

theorem insert_failure_cleanup_witness:
  "fst (submit_payment_proof ex_env_insert_fails (as_member ex_form) ex_store)
     = Response 500 (ErrorJson ''Database insert failed: duplicate key'')
   \<and> snd (submit_payment_proof ex_env_insert_fails (as_member ex_form) ex_store) = ex_store
   \<and> storage_objects (storage_upload ''member-1-1710028800000.png'' ''scan'' ex_store)
     = storage_objects ex_store @ [(''member-1-1710028800000.png'', ''scan'')]"
proof -
  have 1: "http_method (as_member ex_form) \<noteq> ''OPTIONS''"
    "authorization (as_member ex_form) = Some ''Bearer member-token''"
    "''Bearer member-token'' \<noteq> []"
    "body (as_member ex_form) = Some ex_form"
    by (simp_all add: as_member_def)
  have 2: "getUser ex_env_insert_fails (remove_first ''Bearer '' ''Bearer member-token'')
      = Some ''member-1''"
    by (simp add: ex_env_insert_fails_def ex_env_def)
  have 3: "select_single ex_env_insert_fails SelectProfileName
       (filter (\<lambda>p. profile_id p = ''member-1'') (profiles ex_store)) = Inr ex_member"
    by (simp add: select_single_def ex_env_insert_fails_def ex_env_def ex_store_def
        ex_admin_def ex_member_def)
  have 4: "s_proof ex_form = Some \<lparr>file_name = ''receipt.png'', file_type = ''image/png'',
                                file_content = ''scan''\<rparr>"
    "\<not> falsy (s_year ex_form)" "\<not> falsy (s_month ex_form)"
    by (simp_all add: ex_form_def falsy_def)
  have 5: "fault ex_env_insert_fails StorageUpload = None"
    "fault ex_env_insert_fails InsertPaymentProof = Some ''duplicate key''"
    "fault ex_env_insert_fails StorageRemove = None"
    by (simp_all add: ex_env_insert_fails_def)
  have p: "''member-1-1710028800000.png''
      = ''member-1'' @ ''-'' @ int_to_string (date_now ex_env_insert_fails) @ ''.''
        @ file_ext (file_name \<lparr>file_name = ''receipt.png'', file_type = ''image/png'',
                                file_content = ''scan''\<rparr>)"
    by (simp add: ex_env_insert_fails_def ex_env_def ex_date_now file_ext_def)
  have 6: "''member-1-1710028800000.png'' \<notin> fst ` set (storage_objects ex_store)"
    by (simp add: ex_store_def)
  have 7: "contribution_month_of (or_empty (s_year ex_form)) (or_empty (s_month ex_form))
      = Some \<lparr>dt_year = 2024, dt_month = 2, dt_day = 1, dt_ms = 0\<rparr>"
    by (simp add: ex_form_def or_empty_def ex_contribution_month)
  note X = insert_failure_cleanup[OF 1(1,2,3) 2 3 1(4) 4 p 5(1) 6 7 5(2)]
  from X 5(3) have s: "snd (submit_payment_proof ex_env_insert_fails (as_member ex_form) ex_store)
      = ex_store"
    by blast
  from X have "submit_payment_proof ex_env_insert_fails (as_member ex_form) ex_store
      = (thrown (''Database insert failed: '' @ ''duplicate key''),
         fire_and_forget ex_env_insert_fails StorageRemove
           (storage_remove ''member-1-1710028800000.png'')
           (storage_upload ''member-1-1710028800000.png'' ''scan'' ex_store))"
    by simp
  then have f: "fst (submit_payment_proof ex_env_insert_fails (as_member ex_form) ex_store)
      = Response 500 (ErrorJson ''Database insert failed: duplicate key'')"
    by (simp add: thrown_def)
  from X have u: "storage_objects (storage_upload ''member-1-1710028800000.png'' ''scan'' ex_store)
     = storage_objects ex_store @ [(''member-1-1710028800000.png'', ''scan'')]"
    by simp
  from f s u show ?thesis by blast
qed

subsection \<open>CSV export and re-parsing\<close>

lemma special_distinct [simp]:
  "comma \<noteq> dquote" "dquote \<noteq> comma" "comma \<noteq> newline" "newline \<noteq> comma"
  "comma \<noteq> carriage_return" "carriage_return \<noteq> comma" "dquote \<noteq> newline"
  "newline \<noteq> dquote" "dquote \<noteq> carriage_return" "carriage_return \<noteq> dquote"
  "newline \<noteq> carriage_return" "carriage_return \<noteq> newline"
  by (simp_all add: comma_def dquote_def newline_def carriage_return_def)

lemma plain_run:
  "comma \<notin> set v \<Longrightarrow> dquote \<notin> set v \<Longrightarrow> newline \<notin> set v \<Longrightarrow> carriage_return \<notin> set v
    \<Longrightarrow> rfc4180 lf InPlain fld flds recs (v @ rest) = rfc4180 lf InPlain (fld @ v) flds recs rest"
  by (induction v arbitrary: fld) auto

lemma plain_start:
  "comma \<notin> set v \<Longrightarrow> dquote \<notin> set v \<Longrightarrow> newline \<notin> set v \<Longrightarrow> carriage_return \<notin> set v
    \<Longrightarrow> v \<noteq> []
    \<Longrightarrow> rfc4180 lf FieldStart [] flds recs (v @ rest) = rfc4180 lf InPlain v flds recs rest"
  using plain_run[of "tl v" lf "[hd v]" flds recs rest]
  by (cases v) auto

lemma quoted_run:
  "rfc4180 lf InQuoted fld flds recs
      (concat (map (\<lambda>c. if c = dquote then [dquote, dquote] else [c]) v) @ dquote # rest)
     = rfc4180 lf QuoteSeen (fld @ v) flds recs rest"
  by (induction v arbitrary: fld) auto

lemma csv_escape_quoted:
  "needs_quotes v \<Longrightarrow> csv_escape v
     = dquote # concat (map (\<lambda>c. if c = dquote then [dquote, dquote] else [c]) v) @ [dquote]"
  by (auto simp: csv_escape_def needs_quotes_def)

lemma csv_escape_plain: "\<not> needs_quotes v \<Longrightarrow> csv_escape v = v"
  by (auto simp: csv_escape_def needs_quotes_def)

lemma field_then_comma:
  assumes "csv_safe v"
  shows "rfc4180 lf FieldStart [] flds recs (csv_escape v @ comma # rest)
     = rfc4180 lf FieldStart [] (flds @ [v]) recs rest"
proof (cases "needs_quotes v")
  case True
  then show ?thesis by (simp add: csv_escape_quoted quoted_run)
next
  case False
  then have p: "comma \<notin> set v" "dquote \<notin> set v" "newline \<notin> set v" "carriage_return \<notin> set v"
    using assms by (auto simp: needs_quotes_def csv_safe_def)
  show ?thesis
  proof (cases "v = []")
    case True
    then show ?thesis by (simp add: csv_escape_def)
  next
    case nonempty: False
    show ?thesis
      using plain_start[OF p nonempty] by (simp add: csv_escape_plain[OF False])
  qed
qed

lemma field_then_newline:
  assumes "csv_safe v"
  shows "rfc4180 True FieldStart [] flds recs (csv_escape v @ newline # rest)
     = rfc4180 True FieldStart [] [] (recs @ [flds @ [v]]) rest"
proof (cases "needs_quotes v")
  case True
  then show ?thesis by (simp add: csv_escape_quoted quoted_run)
next
  case False
  then have p: "comma \<notin> set v" "dquote \<notin> set v" "newline \<notin> set v" "carriage_return \<notin> set v"
    using assms by (auto simp: needs_quotes_def csv_safe_def)
  show ?thesis
  proof (cases "v = []")
    case True
    then show ?thesis by (simp add: csv_escape_def)
  next
    case nonempty: False
    show ?thesis
      using plain_start[OF p nonempty] by (simp add: csv_escape_plain[OF False])
  qed
qed

lemma field_then_end:
  assumes "csv_safe v" "flds \<noteq> [] \<or> v \<noteq> []"
  shows "rfc4180 lf FieldStart [] flds recs (csv_escape v) = Some (recs @ [flds @ [v]])"
proof (cases "needs_quotes v")
  case True
  then show ?thesis using quoted_run[of lf "[]" flds recs v "[]"]
    by (simp add: csv_escape_quoted)
next
  case False
  then have p: "comma \<notin> set v" "dquote \<notin> set v" "newline \<notin> set v" "carriage_return \<notin> set v"
    using assms by (auto simp: needs_quotes_def csv_safe_def)
  show ?thesis
  proof (cases "v = []")
    case True
    then show ?thesis using assms(2) by (simp add: csv_escape_def)
  next
    case nonempty: False
    show ?thesis
      using plain_start[OF p nonempty, of lf flds recs "[]"] by (simp add: csv_escape_plain[OF False])
  qed
qed

lemma row_then_newline:
  "vs \<noteq> [] \<Longrightarrow> \<forall>v\<in>set vs. csv_safe v
    \<Longrightarrow> rfc4180 True FieldStart [] flds recs (join [comma] (map csv_escape vs) @ newline # rest)
      = rfc4180 True FieldStart [] [] (recs @ [flds @ vs]) rest"
proof (induction vs arbitrary: flds)
  case Nil
  then show ?case by simp
next
  case (Cons v vs)
  show ?case
  proof (cases vs)
    case Nil
    then show ?thesis using Cons.prems by (simp add: field_then_newline)
  next
    case (Cons w ws)
    then show ?thesis
      using Cons.prems Cons.IH[of "flds @ [v]"] by (simp add: field_then_comma)
  qed
qed

lemma row_then_end:
  "vs \<noteq> [] \<Longrightarrow> \<forall>v\<in>set vs. csv_safe v \<Longrightarrow> flds \<noteq> [] \<or> 2 \<le> length vs
    \<Longrightarrow> rfc4180 lf FieldStart [] flds recs (join [comma] (map csv_escape vs))
      = Some (recs @ [flds @ vs])"
proof (induction vs arbitrary: flds)
  case Nil
  then show ?case by simp
next
  case (Cons v vs)
  show ?case
  proof (cases vs)
    case Nil
    then show ?thesis using Cons.prems by (simp add: field_then_end)
  next
    case (Cons w ws)
    then show ?thesis
      using Cons.prems Cons.IH[of "flds @ [v]"] by (simp add: field_then_comma)
  qed
qed

lemma rows_then_end:
  "\<forall>vs\<in>set rows. 2 \<le> length vs \<and> (\<forall>v\<in>set vs. csv_safe v)
    \<Longrightarrow> rfc4180 True FieldStart [] [] recs
          (join [newline] (map (\<lambda>vs. join [comma] (map csv_escape vs)) rows))
      = Some (recs @ rows)"
proof (induction rows arbitrary: recs)
  case Nil
  then show ?case by simp
next
  case (Cons r rows)
  have r: "r \<noteq> []" "\<forall>v\<in>set r. csv_safe v" "2 \<le> length r"
    using Cons.prems by auto
  show ?case
  proof (cases rows)
    case Nil
    then show ?thesis using row_then_end[OF r(1,2), of "[]" True recs] r(3) by simp
  next
    case (Cons r' rs)
    then show ?thesis
      using Cons.prems Cons.IH[of "recs @ [r]"] row_then_newline[OF r(1,2), of "[]" recs]
      by simp
  qed
qed

lemma plain_is_safe:
  "comma \<notin> set v \<Longrightarrow> dquote \<notin> set v \<Longrightarrow> newline \<notin> set v \<Longrightarrow> carriage_return \<notin> set v
    \<Longrightarrow> csv_safe v \<and> csv_escape v = v"
  by (simp add: csv_safe_def csv_escape_def)

lemma toCsv_round_trip:
  assumes cols: "2 \<le> length columns"
    "\<forall>c\<in>set columns. comma \<notin> set c \<and> dquote \<notin> set c \<and> newline \<notin> set c
        \<and> carriage_return \<notin> set c"
    and cells: "\<forall>row\<in>set data. \<forall>col\<in>set columns. csv_safe (cell_text (row col))"
  shows "rfc4180_parse True (toCsv data columns) = Some (columns # map (row_texts columns) data)"
proof -
  have h: "map csv_escape columns = columns" "\<forall>c\<in>set columns. csv_safe c" "columns \<noteq> []"
    using cols plain_is_safe by (auto simp: map_idI)
  have rows: "\<forall>vs\<in>set (map (row_texts columns) data).
      2 \<le> length vs \<and> (\<forall>v\<in>set vs. csv_safe v)"
    using cols(1) cells by (auto simp: row_texts_def)
  have rendered: "map (\<lambda>row. join [comma] (map (\<lambda>col. csv_escape (cell_text (row col))) columns)) data
      = map (\<lambda>vs. join [comma] (map csv_escape vs)) (map (row_texts columns) data)"
    by (simp add: row_texts_def comp_def)
  have "rfc4180_parse True (toCsv data columns)
      = rfc4180 True FieldStart [] [] []
          (join [comma] (map csv_escape columns) @ newline
             # join [newline] (map (\<lambda>vs. join [comma] (map csv_escape vs))
                  (map (row_texts columns) data)))"
    unfolding rfc4180_parse_def toCsv_def rendered h(1) by simp
  also have "\<dots> = rfc4180 True FieldStart [] [] [columns]
          (join [newline] (map (\<lambda>vs. join [comma] (map csv_escape vs))
                  (map (row_texts columns) data)))"
    using row_then_newline[OF h(3) h(2), of "[]" "[]"] by simp
  also have "\<dots> = Some ([columns] @ map (row_texts columns) data)"
    by (rule rows_then_end[OF rows])
  finally show ?thesis by simp
qed

lemma ex_numbers: "int_to_string 7 = ''7''" "int_to_string 5000 = ''5000''"
  by (simp_all add: int_to_string_def nat_to_string.simps)

lemma ex_row_texts:
  "row_texts transaction_columns ex_row
     = [''7'', ''2024-03-10T00:00:00+00:00'', [], ''withdrawal'', ''5000'',
        ''Loan, '' @ [dquote] @ ''first'' @ [dquote], ''Ravi K'']"
  by (simp add: row_texts_def transaction_columns_def ex_row_def cell_text_def ex_numbers)

lemma ex_cr_row_texts:
  "row_texts transaction_columns ex_cr_row
     = [''7'', ''2024-03-10T00:00:00+00:00'', [], ''withdrawal'', ''5000'',
        ''Loan, '' @ [dquote] @ ''first'' @ [dquote], ''Ravi'' @ [carriage_return]]"
  by (simp add: row_texts_def transaction_columns_def ex_cr_row_def ex_row_def cell_text_def
      ex_numbers)

lemma ex_strict: "rfc4180_parse False (toCsv [] transaction_columns) = None"
  by (simp add: rfc4180_parse_def toCsv_def transaction_columns_def comma_def dquote_def
      newline_def carriage_return_def)

lemma ex_cr_parse:
  "rfc4180_parse True (toCsv [ex_cr_row, ex_row] transaction_columns)
     = Some [transaction_columns,
        [''7'', ''2024-03-10T00:00:00+00:00'', [], ''withdrawal'', ''5000'',
         ''Loan, '' @ [dquote] @ ''first'' @ [dquote], ''Ravi''],
        [''7'', ''2024-03-10T00:00:00+00:00'', [], ''withdrawal'', ''5000'',
         ''Loan, '' @ [dquote] @ ''first'' @ [dquote], ''Ravi K'']]"
  by (simp add: rfc4180_parse_def toCsv_def transaction_columns_def ex_cr_row_def ex_row_def
      cell_text_def ex_numbers csv_escape_def comma_def dquote_def newline_def
      carriage_return_def)

text \<open>
  Claim C8 says that the export of any list of transaction records is read back exactly
  under RFC4180 rules. \<open>toCsv\<close> ends its lines with a line feed alone, which the
  letter of RFC 4180 does not take for a line break: read so, not even the export of no
  record is CSV. And read with the line feed allowed, a value with a carriage return and
  no comma, quote or line feed is written without quotes, so the carriage return at the
  end of a name is read as part of the line break and is lost.
\<close>

theorem csv_round_trip_counterexample:
  "rfc4180_parse False (toCsv [] transaction_columns) = None
   \<and> rfc4180_parse True (toCsv [ex_cr_row, ex_row] transaction_columns)
       \<noteq> Some (transaction_columns # map (row_texts transaction_columns) [ex_cr_row, ex_row])"
  by (simp add: ex_strict ex_cr_parse ex_row_texts ex_cr_row_texts)

lemma transaction_columns_plain:
  "2 \<le> length transaction_columns"
  "\<forall>c\<in>set transaction_columns. comma \<notin> set c \<and> dquote \<notin> set c \<and> newline \<notin> set c
      \<and> carriage_return \<notin> set c"
  by (simp_all add: transaction_columns_def comma_def dquote_def newline_def carriage_return_def)

text \<open>
  Claim C8, amended. For every list of transaction records in which every value that
  has a carriage return also has a comma, a double quote or a line feed: the export
  (values with a comma, a double quote or a line feed between double quotes, inner
  quotes doubled), read back with the quoting rules of RFC 4180 and the line feed
  allowed as the line break, gives the row of the column names and then, record by
  record, exactly the texts of the values (the empty text for null and undefined),
  also those with embedded commas, quotes and line feeds.
\<close>

theorem transactions_csv_round_trip:
  assumes "\<forall>row\<in>set data. \<forall>col\<in>set transaction_columns. csv_safe (cell_text (row col))"
  shows "rfc4180_parse True (toCsv data transaction_columns)
     = Some (transaction_columns # map (row_texts transaction_columns) data)"
  by (rule toCsv_round_trip[OF transaction_columns_plain assms])

theorem transactions_csv_round_trip_witness:
  "rfc4180_parse True (toCsv [ex_row, ex_row] transaction_columns)
     = Some [transaction_columns,
        [''7'', ''2024-03-10T00:00:00+00:00'', [], ''withdrawal'', ''5000'',
         ''Loan, '' @ [dquote] @ ''first'' @ [dquote], ''Ravi K''],
        [''7'', ''2024-03-10T00:00:00+00:00'', [], ''withdrawal'', ''5000'',
         ''Loan, '' @ [dquote] @ ''first'' @ [dquote], ''Ravi K'']]"
proof -
  have "\<forall>v\<in>set (row_texts transaction_columns ex_row). csv_safe v"
    unfolding ex_row_texts
    by (simp add: csv_safe_def needs_quotes_def comma_def dquote_def newline_def
        carriage_return_def)
  then have "\<forall>row\<in>set [ex_row, ex_row]. \<forall>col\<in>set transaction_columns.
      csv_safe (cell_text (row col))"
    by (simp add: row_texts_def)
  from transactions_csv_round_trip[OF this] show ?thesis
    by (simp add: ex_row_texts)
qed

end
